theory Spec2Isabelle
  imports Complex_Main
begin

section \<open>Data model of the wallet ledger\<close>

text \<open>
  The model follows the wallet router (\<^verbatim>\<open>walletRouter\<close>) and the wallet schema.
  Amounts are integers in minor units (the columns are \<^verbatim>\<open>integer\<close>, the zod schemas
  demand \<^verbatim>\<open>z.number().int()\<close>). Timestamps are milliseconds as integers. Columns that no
  balance decision reads (description, metadata, currency, paymentMethod, ...) are left out.
  The caller identity \<^verbatim>\<open>ctx.user\<close> is taken as given: authentication is an external
  collaborator.
\<close>

datatype txn_status = Pending | Processing | Completed | Failed | Cancelled

datatype txn_type = Deposit | Transfer | Payment | Fee | BillPayment | Withdrawal

datatype payment_method = Card | BankTransfer | Ussd

record wallet =
  w_id :: nat
  w_userId :: nat
  w_balance :: int
  w_availableBalance :: int
  w_walletPinHash :: string
  w_dailyLimit :: int
  w_monthlyLimit :: int
  w_lastTransactionAt :: "int option"

record txn =
  t_walletId :: nat
  t_reference :: string
  t_type :: txn_type
  t_subType :: string
  t_amount :: int
  t_fee :: int
  t_netAmount :: int
  t_balanceBefore :: int
  t_balanceAfter :: int
  t_status :: txn_status
  t_createdAt :: int
  t_completedAt :: "int option"

record hold =
  h_walletId :: nat
  h_amount :: int
  h_reason :: string
  h_reference :: string
  h_expiresAt :: int
  h_releasedAt :: "int option"

record user =
  u_id :: nat
  u_name :: string
  u_email :: string
  u_phone :: "string option"

record bank =
  bk_id :: nat
  bk_userId :: nat
  bk_isVerified :: bool

text \<open>\<^verbatim>\<open>transactionFeePercentage\<close> is a nullable \<^verbatim>\<open>decimal(5,2)\<close>: it is kept in hundredths of
  a percent, \<open>None\<close> for SQL NULL.\<close>

record merchant =
  m_id :: nat
  m_userId :: nat
  m_transactionFeePercentage :: "int option"
  m_monthlyVolume :: int
  m_totalTransactions :: int

record bill =
  bl_id :: nat
  bl_userId :: nat
  bl_amount :: int
  bl_fee :: int
  bl_billReference :: string
  bl_status :: txn_status
  bl_completedAt :: "int option"

record recipient_row =
  r_userId :: nat
  r_recipientId :: nat
  r_totalTransactions :: int
  r_totalAmount :: int
  r_lastTransactionAt :: int

text \<open>Requests sent to the payment gateway, and the timers armed by \<^verbatim>\<open>setTimeout\<close>. A
  withdrawal timer closes over the wallet row read at the start of the request.\<close>

datatype paystack_request = Initialize string int | Verify string

datatype timer = BillTimer nat string | WithdrawalTimer wallet int string

record state =
  wallets :: "wallet list"
  walletTransactions :: "txn list"
  walletHolds :: "hold list"
  walletBanks :: "bank list"
  walletMerchants :: "merchant list"
  walletBills :: "bill list"
  walletRecipients :: "recipient_row list"
  users :: "user list"
  paystackRequests :: "paystack_request list"
  timers :: "timer list"

text \<open>The gateway's answers: \<^verbatim>\<open>response.data.status\<close> and the fields read below it.\<close>

record init_response =
  pi_status :: bool
  pi_authorization_url :: string
  pi_reference :: string

record verify_response =
  pv_status :: bool
  pv_data_status :: string

text \<open>
  Everything a request takes from outside the store: the clock, the generated part of a
  reference (\<^verbatim>\<open>Date.now()\<close> and the random bytes), the library calls \<^verbatim>\<open>bcrypt\<close> and
  \<^verbatim>\<open>parseInt\<close>, the rate limiter's verdict, the gateway's answers (\<open>None\<close> when the HTTP
  client throws), the simulated biller outcome \<^verbatim>\<open>Math.random() > 0.05\<close>, and whether the
  upsert into \<^verbatim>\<open>walletRecipients\<close> succeeds.
\<close>

record env =
  e_now :: int
  e_startOfDay :: int
  e_startOfMonth :: int
  e_nonce :: string
  e_bcrypt_hash :: "string \<Rightarrow> string"
  e_bcrypt_compare :: "string \<Rightarrow> string \<Rightarrow> bool"
  e_parseInt :: "string \<Rightarrow> int option"
  e_rateLimitOk :: bool
  e_paystackInit :: "init_response option"
  e_paystackVerify :: "verify_response option"
  e_isSuccess :: bool
  e_recipientUpsertOk :: bool

text \<open>One constructor for each \<^verbatim>\<open>TRPCError\<close> the router throws (code and message), one for
  a rejected zod input, one for a failed store statement, one for a failed HTTP call and
  one for a JavaScript exception raised by the resolver itself.\<close>

datatype error =
    InvalidInput
  | RateLimitExceeded
  | WalletAlreadyExists
  | WalletNotFound
  | AmountExceedsMaximum
  | FailedToInitializePayment
  | TransactionNotFound
  | PaymentVerificationFailed
  | InvalidPIN
  | InsufficientBalance
  | InsufficientBalanceWithFee int
  | DailyTransferLimitExceeded
  | MonthlyTransferLimitExceeded
  | RecipientNotFound
  | CannotTransferToYourself
  | RecipientWalletNotFound
  | MerchantNotFound
  | MerchantWalletNotFound
  | BillPaymentFailed
  | BankAccountNotFound
  | BankAccountNotVerified
  | DatabaseError
  | GatewayUnreachable
  | InternalError

text \<open>The tRPC code of each error: \<^verbatim>\<open>BAD_REQUEST\<close> is the code of rejected input, of
  exceeded limits and of insufficient funds.\<close>

datatype trpc_code =
  BAD_REQUEST | UNAUTHORIZED | NOT_FOUND | CONFLICT | TOO_MANY_REQUESTS | INTERNAL_SERVER_ERROR

fun code_of :: "error \<Rightarrow> trpc_code" where
  "code_of InvalidInput = BAD_REQUEST"
| "code_of RateLimitExceeded = TOO_MANY_REQUESTS"
| "code_of WalletAlreadyExists = CONFLICT"
| "code_of WalletNotFound = NOT_FOUND"
| "code_of AmountExceedsMaximum = BAD_REQUEST"
| "code_of FailedToInitializePayment = INTERNAL_SERVER_ERROR"
| "code_of TransactionNotFound = NOT_FOUND"
| "code_of PaymentVerificationFailed = BAD_REQUEST"
| "code_of InvalidPIN = UNAUTHORIZED"
| "code_of InsufficientBalance = BAD_REQUEST"
| "code_of (InsufficientBalanceWithFee f) = BAD_REQUEST"
| "code_of DailyTransferLimitExceeded = BAD_REQUEST"
| "code_of MonthlyTransferLimitExceeded = BAD_REQUEST"
| "code_of RecipientNotFound = NOT_FOUND"
| "code_of CannotTransferToYourself = BAD_REQUEST"
| "code_of RecipientWalletNotFound = NOT_FOUND"
| "code_of MerchantNotFound = NOT_FOUND"
| "code_of MerchantWalletNotFound = NOT_FOUND"
| "code_of BillPaymentFailed = INTERNAL_SERVER_ERROR"
| "code_of BankAccountNotFound = NOT_FOUND"
| "code_of BankAccountNotVerified = BAD_REQUEST"
| "code_of DatabaseError = INTERNAL_SERVER_ERROR"
| "code_of GatewayUnreachable = INTERNAL_SERVER_ERROR"
| "code_of InternalError = INTERNAL_SERVER_ERROR"

section \<open>Store primitives\<close>

text \<open>\<^verbatim>\<open>select ... where ... limit 1\<close> is the first matching row.\<close>

definition walletOfUser :: "state \<Rightarrow> nat \<Rightarrow> wallet option" where
  "walletOfUser s uid = find (\<lambda>w. w_userId w = uid) (wallets s)"

definition walletById :: "state \<Rightarrow> nat \<Rightarrow> wallet option" where
  "walletById s wid = find (\<lambda>w. w_id w = wid) (wallets s)"

definition transactionByReference :: "state \<Rightarrow> string \<Rightarrow> txn option" where
  "transactionByReference s r = find (\<lambda>t. t_reference t = r) (walletTransactions s)"

text \<open>\<^verbatim>\<open>update(wallets).set(...).where(eq(wallets.id, wid))\<close>.\<close>

definition updateWallet :: "nat \<Rightarrow> (wallet \<Rightarrow> wallet) \<Rightarrow> state \<Rightarrow> state" where
  "updateWallet wid f s = s\<lparr>wallets := map (\<lambda>w. if w_id w = wid then f w else w) (wallets s)\<rparr>"

text \<open>\<^verbatim>\<open>update(walletTransactions).set(...).where(eq(walletTransactions.reference, r))\<close>.\<close>

definition updateTransaction :: "string \<Rightarrow> (txn \<Rightarrow> txn) \<Rightarrow> state \<Rightarrow> state" where
  "updateTransaction r f s =
     s\<lparr>walletTransactions := map (\<lambda>t. if t_reference t = r then f t else t) (walletTransactions s)\<rparr>"

text \<open>An insert fails when it breaks the \<^verbatim>\<open>unique()\<close> constraint on the reference.\<close>

definition insertTransaction :: "txn \<Rightarrow> state \<Rightarrow> state option" where
  "insertTransaction t s =
     (if t_reference t \<in> set (map t_reference (walletTransactions s)) then None
      else Some (s\<lparr>walletTransactions := walletTransactions s @ [t]\<rparr>))"

definition insertHold :: "hold \<Rightarrow> state \<Rightarrow> state option" where
  "insertHold h s =
     (if h_reference h \<in> set (map h_reference (walletHolds s)) then None
      else Some (s\<lparr>walletHolds := walletHolds s @ [h]\<rparr>))"

text \<open>A \<^verbatim>\<open>serial\<close> key: larger than every key in the table.\<close>

definition nextId :: "nat list \<Rightarrow> nat" where
  "nextId ids = Suc (fold max ids 0)"

text \<open>\<^verbatim>\<open>Math.round(amount * 0.005)\<close> and \<^verbatim>\<open>Math.round(amount * 0.015)\<close>: the source multiplies in
  IEEE doubles and rounds halves up. On the amounts an \<^verbatim>\<open>integer\<close> column can hold, the
  double product rounds to the same integer as the exact one (a product that is exactly
  half-way is computed exactly), so the model computes with integers.\<close>

definition round_half_percent :: "int \<Rightarrow> int" where
  "round_half_percent amount = (amount + 100) div 200"

definition round_one_and_half_percent :: "int \<Rightarrow> int" where
  "round_one_and_half_percent amount = (3 * amount + 100) div 200"

section \<open>Wallet initialisation and funding\<close>

text \<open>The PIN schema: a string of length 4 made of decimal digits.\<close>

definition pinSchema :: "string \<Rightarrow> bool" where
  "pinSchema pin = (length pin = 4 \<and> list_all (\<lambda>c. List.member ''0123456789'' c) pin)"

definition initialize :: "env \<Rightarrow> user \<Rightarrow> string \<Rightarrow> state \<Rightarrow> (error + wallet) \<times> state" where
  "initialize env u pin s =
     (if \<not> pinSchema pin then (Inl InvalidInput, s)
      else case walletOfUser s (u_id u) of
        Some existingWallet \<Rightarrow> (Inl WalletAlreadyExists, s)
      | None \<Rightarrow>
          let wallet = \<lparr> w_id = nextId (map w_id (wallets s)), w_userId = u_id u,
                         w_balance = 0, w_availableBalance = 0,
                         w_walletPinHash = e_bcrypt_hash env pin,
                         w_dailyLimit = 500000, w_monthlyLimit = 2000000,
                         w_lastTransactionAt = None \<rparr>
          in (Inr wallet, s\<lparr>wallets := wallets s @ [wallet]\<rparr>))"

record fund_input =
  fi_amount :: int
  fi_paymentMethod :: payment_method

text \<open>\<^verbatim>\<open>fundWalletSchema\<close>: \<^verbatim>\<open>amount: z.number().int().min(100).max(10000000)\<close>.\<close>

definition fundWalletSchema :: "fund_input \<Rightarrow> bool" where
  "fundWalletSchema inp = (100 \<le> fi_amount inp \<and> fi_amount inp \<le> 10000000)"

record fund_result =
  fr_authorizationUrl :: string
  fr_reference :: string
  fr_amount :: int

definition subTypeOfMethod :: "payment_method \<Rightarrow> string" where
  "subTypeOfMethod m = (case m of Card \<Rightarrow> ''card'' | BankTransfer \<Rightarrow> ''bank_transfer'' | Ussd \<Rightarrow> ''ussd'')"

definition fundWallet :: "env \<Rightarrow> user \<Rightarrow> fund_input \<Rightarrow> state \<Rightarrow> (error + fund_result) \<times> state" where
  "fundWallet env u inp s =
     (if \<not> fundWalletSchema inp then (Inl InvalidInput, s)
      else case walletOfUser s (u_id u) of
        None \<Rightarrow> (Inl WalletNotFound, s)
      | Some wallet \<Rightarrow>
          if fi_amount inp > 10000000 then (Inl AmountExceedsMaximum, s)
          else
            let reference = ''VH_'' @ e_nonce env;
                s1 = s\<lparr>paystackRequests := paystackRequests s @ [Initialize reference (fi_amount inp)]\<rparr>
            in case e_paystackInit env of
                 None \<Rightarrow> (Inl GatewayUnreachable, s1)
               | Some response \<Rightarrow>
                   if \<not> pi_status response then (Inl FailedToInitializePayment, s1)
                   else
                     (case insertTransaction
                        \<lparr> t_walletId = w_id wallet, t_reference = reference, t_type = Deposit,
                          t_subType = subTypeOfMethod (fi_paymentMethod inp),
                          t_amount = fi_amount inp,
                          t_fee = round_one_and_half_percent (fi_amount inp),
                          t_netAmount = fi_amount inp - round_one_and_half_percent (fi_amount inp),
                          t_balanceBefore = w_balance wallet, t_balanceAfter = w_balance wallet,
                          t_status = Pending, t_createdAt = e_now env, t_completedAt = None \<rparr> s1 of
                        None \<Rightarrow> (Inl DatabaseError, s1)
                      | Some s2 \<Rightarrow>
                          (Inr \<lparr> fr_authorizationUrl = pi_authorization_url response,
                                 fr_reference = pi_reference response,
                                 fr_amount = fi_amount inp \<rparr>, s2)))"

record verify_result =
  vr_success :: bool
  vr_amount :: int
  vr_newBalance :: int

definition verifyFunding :: "env \<Rightarrow> user \<Rightarrow> string \<Rightarrow> state \<Rightarrow> (error + verify_result) \<times> state" where
  "verifyFunding env u reference s =
     (case transactionByReference s reference of
        None \<Rightarrow> (Inl TransactionNotFound, s)
      | Some transaction \<Rightarrow>
          let s1 = s\<lparr>paystackRequests := paystackRequests s @ [Verify reference]\<rparr>
          in case e_paystackVerify env of
               None \<Rightarrow> (Inl GatewayUnreachable, s1)
             | Some response \<Rightarrow>
                 if \<not> (pv_status response \<and> pv_data_status response = ''success'') then
                   (Inl PaymentVerificationFailed,
                    updateTransaction reference
                      (\<lambda>t. t\<lparr>t_status := Failed, t_completedAt := Some (e_now env)\<rparr>) s1)
                 else
                   (case walletById s1 (t_walletId transaction) of
                      None \<Rightarrow> (Inl WalletNotFound, s1)
                    | Some wallet \<Rightarrow>
                        let newBalance = w_balance wallet + t_netAmount transaction;
                            newAvailableBalance = w_availableBalance wallet + t_netAmount transaction
                        in (Inr \<lparr> vr_success = True, vr_amount = t_amount transaction,
                                   vr_newBalance = newBalance \<rparr>,
                            updateTransaction reference
                              (\<lambda>t. t\<lparr>t_status := Completed, t_balanceBefore := w_balance wallet,
                                     t_balanceAfter := newBalance,
                                     t_completedAt := Some (e_now env)\<rparr>)
                              (updateWallet (w_id wallet)
                                 (\<lambda>w. w\<lparr>w_balance := newBalance,
                                        w_availableBalance := newAvailableBalance,
                                        w_lastTransactionAt := Some (e_now env)\<rparr>) s1))))"

section \<open>Peer-to-peer transfer\<close>

record transfer_input =
  ti_recipientIdentifier :: string
  ti_amount :: int
  ti_pin :: string

text \<open>\<^verbatim>\<open>transferSchema\<close>: identifier of at least one character, amount from 10 to 500000,
  four-digit PIN.\<close>

definition transferSchema :: "transfer_input \<Rightarrow> bool" where
  "transferSchema inp =
     (1 \<le> length (ti_recipientIdentifier inp) \<and> 10 \<le> ti_amount inp \<and> ti_amount inp \<le> 500000
      \<and> pinSchema (ti_pin inp))"

record transfer_result =
  tr_success :: bool
  tr_reference :: string
  tr_amount :: int
  tr_fee :: int
  tr_recipient :: string
  tr_newBalance :: int

text \<open>The limit queries of \<^verbatim>\<open>transfer\<close>: \<^verbatim>\<open>sum(walletTransactions.amount)\<close> over the rows of the
  wallet created since the start of the window, completed, of type \<^verbatim>\<open>'transfer'\<close>.\<close>

definition transferTotalSince :: "state \<Rightarrow> nat \<Rightarrow> int \<Rightarrow> int" where
  "transferTotalSince s wid start =
     sum_list (map t_amount
       (filter (\<lambda>t. t_walletId t = wid \<and> start \<le> t_createdAt t \<and> t_status t = Completed
                     \<and> t_type t = Transfer) (walletTransactions s)))"

text \<open>The names the module \<^verbatim>\<open>../db/schema-wallet\<close> exports. The router imports its tables and
  schemas from this module, \<^verbatim>\<open>users\<close> among them; the module imports \<^verbatim>\<open>users\<close> from
  \<^verbatim>\<open>./schema\<close> for its own references and does not export it, so the name is undefined in
  the router and an expression that reads a column of it throws.\<close>

definition schemaWalletExports :: "string list" where
  "schemaWalletExports =
     [''wallets'', ''walletTransactions'', ''walletHolds'', ''walletBanks'', ''walletCards'',
      ''walletMerchants'', ''walletQRCodes'', ''walletBills'', ''walletRecipients'',
      ''walletsRelations'', ''createWalletSchema'', ''fundWalletSchema'', ''transferSchema'',
      ''billPaymentSchema'', ''withdrawSchema'']"

definition imported :: "string \<Rightarrow> bool" where
  "imported name = List.member schemaWalletExports name"

text \<open>The recipient query: users joined with wallets, matched on e-mail, phone or
  \<^verbatim>\<open>parseInt(recipientIdentifier) || 0\<close>. Building it reads \<^verbatim>\<open>users.id\<close>.\<close>

definition findRecipient :: "env \<Rightarrow> state \<Rightarrow> string \<Rightarrow> error + user option" where
  "findRecipient env s ident =
     (if \<not> imported ''users'' then Inl InternalError
      else Inr (find (\<lambda>u. walletOfUser s (u_id u) \<noteq> None
               \<and> (u_email u = ident \<or> u_phone u = Some ident
                  \<or> int (u_id u) = (case e_parseInt env ident of None \<Rightarrow> 0 | Some n \<Rightarrow> n)))
          (users s)))"

text \<open>The upsert into the sender's favourite list, \<^verbatim>\<open>onConflictDoUpdate\<close> on
  (userId, recipientId). The store refuses an \<^verbatim>\<open>ON CONFLICT\<close> target without a unique
  constraint on its columns; the environment says whether the statement is accepted.\<close>

definition upsertRecipient :: "env \<Rightarrow> nat \<Rightarrow> nat \<Rightarrow> int \<Rightarrow> state \<Rightarrow> state option" where
  "upsertRecipient env uid rid amount s =
     (if \<not> e_recipientUpsertOk env then None
      else if list_ex (\<lambda>r. r_userId r = uid \<and> r_recipientId r = rid) (walletRecipients s) then
        Some (s\<lparr>walletRecipients :=
                  map (\<lambda>r. if r_userId r = uid \<and> r_recipientId r = rid
                            then r\<lparr>r_lastTransactionAt := e_now env,
                                   r_totalTransactions := r_totalTransactions r + 1,
                                   r_totalAmount := r_totalAmount r + amount\<rparr>
                            else r) (walletRecipients s)\<rparr>)
      else
        Some (s\<lparr>walletRecipients := walletRecipients s @
                  [\<lparr> r_userId = uid, r_recipientId = rid, r_totalTransactions = 1,
                     r_totalAmount = amount, r_lastTransactionAt = e_now env \<rparr>]\<rparr>))"

text \<open>The three rows written by a transfer.\<close>

definition senderLeg :: "env \<Rightarrow> wallet \<Rightarrow> string \<Rightarrow> int \<Rightarrow> int \<Rightarrow> txn" where
  "senderLeg env senderWallet reference amount fee =
     \<lparr> t_walletId = w_id senderWallet, t_reference = reference @ ''_S'', t_type = Transfer,
       t_subType = ''p2p_send'', t_amount = - amount, t_fee = fee, t_netAmount = - amount,
       t_balanceBefore = w_balance senderWallet, t_balanceAfter = w_balance senderWallet - amount,
       t_status = Completed, t_createdAt = e_now env, t_completedAt = Some (e_now env) \<rparr>"

definition recipientLeg :: "env \<Rightarrow> wallet \<Rightarrow> string \<Rightarrow> int \<Rightarrow> txn" where
  "recipientLeg env recipientWallet reference netAmount =
     \<lparr> t_walletId = w_id recipientWallet, t_reference = reference @ ''_R'', t_type = Transfer,
       t_subType = ''p2p_receive'', t_amount = netAmount, t_fee = 0, t_netAmount = netAmount,
       t_balanceBefore = w_balance recipientWallet,
       t_balanceAfter = w_balance recipientWallet + netAmount,
       t_status = Completed, t_createdAt = e_now env, t_completedAt = Some (e_now env) \<rparr>"

definition feeLeg :: "env \<Rightarrow> wallet \<Rightarrow> string \<Rightarrow> int \<Rightarrow> int \<Rightarrow> txn" where
  "feeLeg env senderWallet reference amount fee =
     \<lparr> t_walletId = w_id senderWallet, t_reference = reference @ ''_F'', t_type = Fee,
       t_subType = [], t_amount = - fee, t_fee = 0, t_netAmount = - fee,
       t_balanceBefore = w_balance senderWallet - amount,
       t_balanceAfter = w_balance senderWallet - amount,
       t_status = Completed, t_createdAt = e_now env, t_completedAt = Some (e_now env) \<rparr>"

text \<open>The body of \<^verbatim>\<open>db.transaction\<close> in \<^verbatim>\<open>transfer\<close>: \<open>None\<close> when a statement throws, which
  rolls every statement of the body back.\<close>

definition transferTx ::
  "env \<Rightarrow> user \<Rightarrow> wallet \<Rightarrow> wallet \<Rightarrow> user \<Rightarrow> string \<Rightarrow> int \<Rightarrow> int \<Rightarrow> state \<Rightarrow> state option" where
  "transferTx env u senderWallet recipientWallet recipient reference amount fee s =
     (let netAmount = amount - fee;
          s1 = updateWallet (w_id senderWallet)
                 (\<lambda>w. w\<lparr>w_balance := w_balance senderWallet - amount,
                        w_availableBalance := w_availableBalance senderWallet - amount,
                        w_lastTransactionAt := Some (e_now env)\<rparr>) s;
          s2 = updateWallet (w_id recipientWallet)
                 (\<lambda>w. w\<lparr>w_balance := w_balance recipientWallet + netAmount,
                        w_availableBalance := w_availableBalance recipientWallet + netAmount,
                        w_lastTransactionAt := Some (e_now env)\<rparr>) s1
      in case insertTransaction (senderLeg env senderWallet reference amount fee) s2 of
           None \<Rightarrow> None
         | Some s3 \<Rightarrow>
            (case insertTransaction (recipientLeg env recipientWallet reference netAmount) s3 of
               None \<Rightarrow> None
             | Some s4 \<Rightarrow>
                (case insertTransaction (feeLeg env senderWallet reference amount fee) s4 of
                   None \<Rightarrow> None
                 | Some s5 \<Rightarrow> upsertRecipient env (u_id u) (u_id recipient) amount s5)))"

definition transfer :: "env \<Rightarrow> user \<Rightarrow> transfer_input \<Rightarrow> state \<Rightarrow> (error + transfer_result) \<times> state" where
  "transfer env u inp s =
     (if \<not> e_rateLimitOk env then (Inl RateLimitExceeded, s)
      else if \<not> transferSchema inp then (Inl InvalidInput, s)
      else case walletOfUser s (u_id u) of
        None \<Rightarrow> (Inl WalletNotFound, s)
      | Some senderWallet \<Rightarrow>
          if \<not> e_bcrypt_compare env (ti_pin inp) (w_walletPinHash senderWallet)
          then (Inl InvalidPIN, s)
          else if ti_amount inp > w_availableBalance senderWallet then (Inl InsufficientBalance, s)
          else
            let dailySpent = transferTotalSince s (w_id senderWallet) (e_startOfDay env);
                monthlySpent = transferTotalSince s (w_id senderWallet) (e_startOfMonth env)
            in if dailySpent + ti_amount inp > w_dailyLimit senderWallet
               then (Inl DailyTransferLimitExceeded, s)
               else if monthlySpent + ti_amount inp > w_monthlyLimit senderWallet
               then (Inl MonthlyTransferLimitExceeded, s)
               else
                 (case findRecipient env s (ti_recipientIdentifier inp) of
                    Inl e \<Rightarrow> (Inl e, s)
                  | Inr None \<Rightarrow> (Inl RecipientNotFound, s)
                  | Inr (Some recipient) \<Rightarrow>
                      if u_id recipient = u_id u then (Inl CannotTransferToYourself, s)
                      else
                        (case walletOfUser s (u_id recipient) of
                           None \<Rightarrow> (Inl RecipientWalletNotFound, s)
                         | Some recipientWallet \<Rightarrow>
                             let fee = max 100 (round_half_percent (ti_amount inp));
                                 reference = ''TRF_'' @ e_nonce env
                             in case transferTx env u senderWallet recipientWallet recipient
                                       reference (ti_amount inp) fee s of
                                  None \<Rightarrow> (Inl DatabaseError, s)
                                | Some s' \<Rightarrow>
                                    (Inr \<lparr> tr_success = True, tr_reference = reference,
                                           tr_amount = ti_amount inp, tr_fee = fee,
                                           tr_recipient = u_name recipient,
                                           tr_newBalance = w_balance senderWallet - ti_amount inp \<rparr>,
                                     s'))))"

section \<open>Merchant payment\<close>

record merchant_input =
  mi_merchantId :: int
  mi_amount :: int
  mi_pin :: string

definition payMerchantSchema :: "merchant_input \<Rightarrow> bool" where
  "payMerchantSchema inp = (0 < mi_merchantId inp \<and> 10 \<le> mi_amount inp \<and> pinSchema (mi_pin inp))"

record merchant_result =
  mr_reference :: string
  mr_amount :: int
  mr_fee :: int
  mr_merchantAmount :: int
  mr_newBalance :: int

text \<open>
  The merchant fee is computed in IEEE 754 doubles. A double is kept as a pair \<open>(m, e)\<close>
  that stands for \<open>m * 2 ^ e\<close>; \<open>roundToDouble n d\<close> is the double nearest to \<open>n / d\<close> for a
  positive \<open>d\<close>, ties to even, with a significand of 53 bits (the magnitudes at hand are
  far from overflow and from the subnormal range). \<open>twoTo k\<close> is \<open>2 ^ k\<close> for a positive
  \<open>k\<close> and 1 otherwise.
\<close>

function bitLength :: "int \<Rightarrow> int" where
  "bitLength n = (if n \<le> 0 then 0 else 1 + bitLength (n div 2))"
  by pat_completeness auto
termination
  by (relation "measure nat") auto

function twoTo :: "int \<Rightarrow> int" where
  "twoTo k = (if k \<le> 0 then 1 else 2 * twoTo (k - 1))"
  by pat_completeness auto
termination
  by (relation "measure nat") auto

declare bitLength.simps [simp del]
declare twoTo.simps [simp del]

type_synonym double = "int \<times> int"

definition roundToDouble :: "int \<Rightarrow> int \<Rightarrow> double" where
  "roundToDouble n d =
     (if n = 0 then (0, 0)
      else
        let a = \<bar>n\<bar>;
            e1 = bitLength a - bitLength d - 53;
            e = (if d * twoTo e1 * twoTo 53 \<le> a * twoTo (- e1) then e1 + 1 else e1);
            N = a * twoTo (- e);
            D = d * twoTo e;
            q = N div D;
            r = N mod D;
            m = (if D < 2 * r \<or> (2 * r = D \<and> odd q) then q + 1 else q)
        in (if n < 0 then - m else m, e))"

text \<open>\<^verbatim>\<open>parseFloat\<close> of a decimal with two places, given in hundredths; a double divided by
  an integer; an integer times a double; \<^verbatim>\<open>Math.round\<close>, which rounds halves up.\<close>

definition parseFloatHundredths :: "int \<Rightarrow> double" where
  "parseFloatHundredths h = roundToDouble h 100"

definition doubleDiv :: "double \<Rightarrow> int \<Rightarrow> double" where
  "doubleDiv x c = (case x of (m, e) \<Rightarrow> roundToDouble (m * twoTo e) (c * twoTo (- e)))"

definition doubleTimes :: "int \<Rightarrow> double \<Rightarrow> double" where
  "doubleTimes a x = (case x of (m, e) \<Rightarrow> roundToDouble (a * m * twoTo e) (twoTo (- e)))"

definition mathRound :: "double \<Rightarrow> int" where
  "mathRound x = (case x of (m, e) \<Rightarrow> (2 * m * twoTo e + twoTo (- e)) div (2 * twoTo (- e)))"

text \<open>\<^verbatim>\<open>Math.round(amount * (feePercentage / 100))\<close> with
  \<^verbatim>\<open>feePercentage = parseFloat(transactionFeePercentage || '1.00')\<close>.\<close>

definition merchantFee :: "int option \<Rightarrow> int \<Rightarrow> int" where
  "merchantFee p amount =
     mathRound (doubleTimes amount
       (doubleDiv (parseFloatHundredths (case p of None \<Rightarrow> 100 | Some h \<Rightarrow> h)) 100))"

definition merchantSenderLeg :: "env \<Rightarrow> wallet \<Rightarrow> string \<Rightarrow> int \<Rightarrow> txn" where
  "merchantSenderLeg env senderWallet reference amount =
     \<lparr> t_walletId = w_id senderWallet, t_reference = reference @ ''_S'', t_type = Payment,
       t_subType = ''merchant'', t_amount = - amount, t_fee = 0, t_netAmount = - amount,
       t_balanceBefore = w_balance senderWallet, t_balanceAfter = w_balance senderWallet - amount,
       t_status = Completed, t_createdAt = e_now env, t_completedAt = Some (e_now env) \<rparr>"

definition merchantReceiveLeg :: "env \<Rightarrow> wallet \<Rightarrow> string \<Rightarrow> int \<Rightarrow> int \<Rightarrow> txn" where
  "merchantReceiveLeg env merchantWallet reference merchantAmount fee =
     \<lparr> t_walletId = w_id merchantWallet, t_reference = reference @ ''_M'', t_type = Payment,
       t_subType = ''merchant_receive'', t_amount = merchantAmount, t_fee = fee,
       t_netAmount = merchantAmount,
       t_balanceBefore = w_balance merchantWallet,
       t_balanceAfter = w_balance merchantWallet + merchantAmount,
       t_status = Completed, t_createdAt = e_now env, t_completedAt = Some (e_now env) \<rparr>"

definition merchantFeeLeg :: "env \<Rightarrow> wallet \<Rightarrow> string \<Rightarrow> int \<Rightarrow> int \<Rightarrow> txn" where
  "merchantFeeLeg env merchantWallet reference merchantAmount fee =
     \<lparr> t_walletId = w_id merchantWallet, t_reference = reference @ ''_F'', t_type = Fee,
       t_subType = [], t_amount = - fee, t_fee = 0, t_netAmount = - fee,
       t_balanceBefore = w_balance merchantWallet + merchantAmount,
       t_balanceAfter = w_balance merchantWallet + merchantAmount,
       t_status = Completed, t_createdAt = e_now env, t_completedAt = Some (e_now env) \<rparr>"

text \<open>The body of \<^verbatim>\<open>db.transaction\<close> in \<^verbatim>\<open>payMerchant\<close>. The payer row and the merchant row
  carry \<^verbatim>\<open>merchantId: merchant[0].id\<close>, a column that references \<^verbatim>\<open>users.id\<close>: the store refuses
  the first insert when no user has the merchant's id.\<close>

definition payMerchantTx ::
  "env \<Rightarrow> wallet \<Rightarrow> wallet \<Rightarrow> merchant \<Rightarrow> string \<Rightarrow> int \<Rightarrow> int \<Rightarrow> state \<Rightarrow> state option" where
  "payMerchantTx env senderWallet merchantWallet merch reference amount fee s =
     (let merchantAmount = amount - fee;
          s1 = updateWallet (w_id senderWallet)
                 (\<lambda>w. w\<lparr>w_balance := w_balance senderWallet - amount,
                        w_availableBalance := w_availableBalance senderWallet - amount,
                        w_lastTransactionAt := Some (e_now env)\<rparr>) s;
          s2 = updateWallet (w_id merchantWallet)
                 (\<lambda>w. w\<lparr>w_balance := w_balance merchantWallet + merchantAmount,
                        w_availableBalance := w_availableBalance merchantWallet + merchantAmount,
                        w_lastTransactionAt := Some (e_now env)\<rparr>) s1
      in case (if list_ex (\<lambda>x. u_id x = m_id merch) (users s2)
               then insertTransaction (merchantSenderLeg env senderWallet reference amount) s2
               else None) of
           None \<Rightarrow> None
         | Some s3 \<Rightarrow>
            (case insertTransaction
                    (merchantReceiveLeg env merchantWallet reference merchantAmount fee) s3 of
               None \<Rightarrow> None
             | Some s4 \<Rightarrow>
                (case (if fee > 0
                       then insertTransaction
                              (merchantFeeLeg env merchantWallet reference merchantAmount fee) s4
                       else Some s4) of
                   None \<Rightarrow> None
                 | Some s5 \<Rightarrow>
                     Some (s5\<lparr>walletMerchants :=
                            map (\<lambda>m. if m_id m = m_id merch
                                      then m\<lparr>m_monthlyVolume := m_monthlyVolume m + amount,
                                             m_totalTransactions := m_totalTransactions m + 1\<rparr>
                                      else m) (walletMerchants s5)\<rparr>))))"

definition payMerchant :: "env \<Rightarrow> user \<Rightarrow> merchant_input \<Rightarrow> state \<Rightarrow> (error + merchant_result) \<times> state" where
  "payMerchant env u inp s =
     (if \<not> e_rateLimitOk env then (Inl RateLimitExceeded, s)
      else if \<not> payMerchantSchema inp then (Inl InvalidInput, s)
      else case walletOfUser s (u_id u) of
        None \<Rightarrow> (Inl WalletNotFound, s)
      | Some senderWallet \<Rightarrow>
          if \<not> e_bcrypt_compare env (mi_pin inp) (w_walletPinHash senderWallet)
          then (Inl InvalidPIN, s)
          else if mi_amount inp > w_availableBalance senderWallet then (Inl InsufficientBalance, s)
          else
            (case find (\<lambda>m. int (m_id m) = mi_merchantId inp) (walletMerchants s) of
               None \<Rightarrow> (Inl MerchantNotFound, s)
             | Some merch \<Rightarrow>
                 (case walletOfUser s (m_userId merch) of
                    None \<Rightarrow> (Inl MerchantWalletNotFound, s)
                  | Some merchantWallet \<Rightarrow>
                      let fee = merchantFee (m_transactionFeePercentage merch) (mi_amount inp);
                          reference = ''MERCH_'' @ e_nonce env
                      in case payMerchantTx env senderWallet merchantWallet merch reference
                                (mi_amount inp) fee s of
                           None \<Rightarrow> (Inl DatabaseError, s)
                         | Some s' \<Rightarrow>
                             (Inr \<lparr> mr_reference = reference, mr_amount = mi_amount inp,
                                    mr_fee = fee, mr_merchantAmount = mi_amount inp - fee,
                                    mr_newBalance = w_balance senderWallet - mi_amount inp \<rparr>,
                              s'))))"

section \<open>Bill payment\<close>

record bill_input =
  bi_billType :: string
  bi_amount :: int
  bi_pin :: string

text \<open>\<^verbatim>\<open>billPaymentSchema\<close>: the amount is at least 50; the bill type is one of the seven of
  the enum. Provider and account number are not read by any balance decision.\<close>

definition billPaymentSchema :: "bill_input \<Rightarrow> bool" where
  "billPaymentSchema inp =
     (List.member [''electricity'', ''water'', ''dstv'', ''gotv'', ''startimes'', ''airtime'', ''data'']
        (bi_billType inp)
      \<and> 50 \<le> bi_amount inp \<and> pinSchema (bi_pin inp))"

record bill_result =
  br_reference :: string
  br_amount :: int
  br_fee :: int
  br_totalAmount :: int
  br_status :: txn_status
  br_newBalance :: int

definition payBill :: "env \<Rightarrow> user \<Rightarrow> bill_input \<Rightarrow> state \<Rightarrow> (error + bill_result) \<times> state" where
  "payBill env u inp s =
     (if \<not> e_rateLimitOk env then (Inl RateLimitExceeded, s)
      else if \<not> billPaymentSchema inp then (Inl InvalidInput, s)
      else case walletOfUser s (u_id u) of
        None \<Rightarrow> (Inl WalletNotFound, s)
      | Some wallet \<Rightarrow>
          if \<not> e_bcrypt_compare env (bi_pin inp) (w_walletPinHash wallet) then (Inl InvalidPIN, s)
          else if bi_amount inp > w_availableBalance wallet then (Inl InsufficientBalance, s)
          else
            let fee = max 200 (round_one_and_half_percent (bi_amount inp));
                totalAmount = bi_amount inp + fee
            in if totalAmount > w_availableBalance wallet
               then (Inl (InsufficientBalanceWithFee fee), s)
               else
                 let reference = ''BILL_'' @ e_nonce env;
                     isSuccess = e_isSuccess env;
                     newBalance = w_balance wallet - totalAmount;
                     newAvailableBalance = w_availableBalance wallet - totalAmount;
                     s1 = updateWallet (w_id wallet)
                            (\<lambda>w. w\<lparr>w_balance := newBalance,
                                   w_availableBalance := newAvailableBalance,
                                   w_lastTransactionAt := Some (e_now env)\<rparr>) s;
                     billId = nextId (map bl_id (walletBills s1));
                     s2 = s1\<lparr>walletBills := walletBills s1 @
                            [\<lparr> bl_id = billId, bl_userId = u_id u, bl_amount = bi_amount inp,
                               bl_fee = fee, bl_billReference = reference,
                               bl_status = (if isSuccess then Processing else Failed),
                               bl_completedAt = None \<rparr>]\<rparr>
                 in case insertTransaction
                           \<lparr> t_walletId = w_id wallet, t_reference = reference,
                             t_type = BillPayment, t_subType = bi_billType inp,
                             t_amount = - totalAmount, t_fee = fee, t_netAmount = - totalAmount,
                             t_balanceBefore = w_balance wallet, t_balanceAfter = newBalance,
                             t_status = (if isSuccess then Processing else Failed),
                             t_createdAt = e_now env,
                             t_completedAt = (if isSuccess then None else Some (e_now env)) \<rparr> s2 of
                      None \<Rightarrow> (Inl DatabaseError, s)
                    | Some s3 \<Rightarrow>
                        if \<not> isSuccess then (Inl BillPaymentFailed, s)
                        else
                          (Inr \<lparr> br_reference = reference, br_amount = bi_amount inp,
                                 br_fee = fee, br_totalAmount = totalAmount,
                                 br_status = Processing, br_newBalance = newBalance \<rparr>,
                           s3\<lparr>timers := timers s3 @ [BillTimer billId reference]\<rparr>))"

section \<open>Withdrawal\<close>

record withdraw_input =
  wi_bankId :: int
  wi_amount :: int
  wi_pin :: string

definition withdrawSchema :: "withdraw_input \<Rightarrow> bool" where
  "withdrawSchema inp =
     (0 < wi_bankId inp \<and> 100 \<le> wi_amount inp \<and> wi_amount inp \<le> 500000 \<and> pinSchema (wi_pin inp))"

record withdraw_result =
  wr_reference :: string
  wr_amount :: int
  wr_fee :: int
  wr_totalAmount :: int
  wr_status :: txn_status
  wr_newAvailableBalance :: int

text \<open>The statements of \<^verbatim>\<open>withdraw\<close> run one by one on \<^verbatim>\<open>db\<close>, not inside
  \<^verbatim>\<open>db.transaction\<close>: a statement that throws leaves the earlier ones in place.\<close>

definition withdraw :: "env \<Rightarrow> user \<Rightarrow> withdraw_input \<Rightarrow> state \<Rightarrow> (error + withdraw_result) \<times> state" where
  "withdraw env u inp s =
     (if \<not> e_rateLimitOk env then (Inl RateLimitExceeded, s)
      else if \<not> withdrawSchema inp then (Inl InvalidInput, s)
      else case walletOfUser s (u_id u) of
        None \<Rightarrow> (Inl WalletNotFound, s)
      | Some wallet \<Rightarrow>
          if \<not> e_bcrypt_compare env (wi_pin inp) (w_walletPinHash wallet) then (Inl InvalidPIN, s)
          else if wi_amount inp > w_availableBalance wallet then (Inl InsufficientBalance, s)
          else
            (case find (\<lambda>b. int (bk_id b) = wi_bankId inp \<and> bk_userId b = u_id u) (walletBanks s) of
               None \<Rightarrow> (Inl BankAccountNotFound, s)
             | Some bnk \<Rightarrow>
                 if \<not> bk_isVerified bnk then (Inl BankAccountNotVerified, s)
                 else
                   let fee = 1500;
                       totalAmount = wi_amount inp + fee
                   in if totalAmount > w_availableBalance wallet
                      then (Inl (InsufficientBalanceWithFee fee), s)
                      else
                        let reference = ''WDL_'' @ e_nonce env
                        in case insertHold
                                  \<lparr> h_walletId = w_id wallet, h_amount = totalAmount,
                                    h_reason = ''withdrawal'', h_reference = reference,
                                    h_expiresAt = e_now env + 24 * 60 * 60 * 1000,
                                    h_releasedAt = None \<rparr> s of
                             None \<Rightarrow> (Inl DatabaseError, s)
                           | Some s1 \<Rightarrow>
                               let newAvailableBalance = w_availableBalance wallet - totalAmount;
                                   s2 = updateWallet (w_id wallet)
                                          (\<lambda>w. w\<lparr>w_availableBalance := newAvailableBalance\<rparr>) s1
                               in case insertTransaction
                                         \<lparr> t_walletId = w_id wallet, t_reference = reference,
                                           t_type = Withdrawal, t_subType = ''bank_transfer'',
                                           t_amount = - totalAmount, t_fee = fee,
                                           t_netAmount = - totalAmount,
                                           t_balanceBefore = w_balance wallet,
                                           t_balanceAfter = w_balance wallet,
                                           t_status = Processing, t_createdAt = e_now env,
                                           t_completedAt = None \<rparr> s2 of
                                    None \<Rightarrow> (Inl DatabaseError, s2)
                                  | Some s3 \<Rightarrow>
                                      (Inr \<lparr> wr_reference = reference, wr_amount = wi_amount inp,
                                             wr_fee = fee, wr_totalAmount = totalAmount,
                                             wr_status = Processing,
                                             wr_newAvailableBalance = newAvailableBalance \<rparr>,
                                       s3\<lparr>timers := timers s3 @
                                            [WithdrawalTimer wallet totalAmount reference]\<rparr>)))"

section \<open>Asynchronous settlement\<close>

text \<open>The callbacks passed to \<^verbatim>\<open>setTimeout\<close>. The bill callback marks the bill and the
  transaction completed. The withdrawal callback releases the hold, writes the balance
  computed from the wallet row the request had read, and completes the transaction.\<close>

fun fireTimer :: "env \<Rightarrow> timer \<Rightarrow> state \<Rightarrow> state" where
  "fireTimer env (BillTimer billId reference) s =
     updateTransaction reference
       (\<lambda>t. t\<lparr>t_status := Completed, t_completedAt := Some (e_now env)\<rparr>)
       (s\<lparr>walletBills := map (\<lambda>b. if bl_id b = billId
                                   then b\<lparr>bl_status := Completed, bl_completedAt := Some (e_now env)\<rparr>
                                   else b) (walletBills s)\<rparr>)"
| "fireTimer env (WithdrawalTimer wallet totalAmount reference) s =
     (let s1 = s\<lparr>walletHolds := map (\<lambda>h. if h_reference h = reference
                                           then h\<lparr>h_releasedAt := Some (e_now env)\<rparr> else h)
                                     (walletHolds s)\<rparr>;
          newBalance = w_balance wallet - totalAmount;
          s2 = updateWallet (w_id wallet)
                 (\<lambda>w. w\<lparr>w_balance := newBalance, w_lastTransactionAt := Some (e_now env)\<rparr>) s1
      in updateTransaction reference
           (\<lambda>t. t\<lparr>t_status := Completed, t_balanceAfter := newBalance,
                  t_completedAt := Some (e_now env)\<rparr>) s2)"

section \<open>Concrete ledgers\<close>

text \<open>Two users, Alice and Bob, and a store without wallets, in which Bob has a verified
  bank account and a merchant profile with a fee of 2.50%. In the environment the rate
  limiter, the PIN check, the gateway and the biller succeed, and the store refuses the
  upsert into the favourite list: the schema declares no unique constraint on
  (userId, recipientId) of \<^verbatim>\<open>wallet_recipients\<close>. \<open>envAt\<close> sets the clock and the generated
  part of the reference of one request.\<close>

definition alice :: user where
  "alice = \<lparr> u_id = 1, u_name = ''Alice'', u_email = ''alice@campus'', u_phone = None \<rparr>"

definition bob :: user where
  "bob = \<lparr> u_id = 2, u_name = ''Bob'', u_email = ''bob@campus'', u_phone = None \<rparr>"

definition env0 :: env where
  "env0 = \<lparr> e_now = 1000, e_startOfDay = 0, e_startOfMonth = 0, e_nonce = ''1'',
            e_bcrypt_hash = (\<lambda>pin. ''#'' @ pin),
            e_bcrypt_compare = (\<lambda>pin h. h = ''#'' @ pin),
            e_parseInt = (\<lambda>x. None),
            e_rateLimitOk = True,
            e_paystackInit = Some \<lparr> pi_status = True, pi_authorization_url = ''url'',
                                    pi_reference = ''VH_1'' \<rparr>,
            e_paystackVerify = Some \<lparr> pv_status = True, pv_data_status = ''success'' \<rparr>,
            e_isSuccess = True,
            e_recipientUpsertOk = False \<rparr>"

definition envAt :: "int \<Rightarrow> string \<Rightarrow> env" where
  "envAt now nonce = env0\<lparr>e_now := now, e_nonce := nonce\<rparr>"

definition initialStore :: state where
  "initialStore = \<lparr> wallets = [], walletTransactions = [], walletHolds = [],
                    walletBanks = [\<lparr> bk_id = 1, bk_userId = 2, bk_isVerified = True \<rparr>],
                    walletMerchants = [\<lparr> m_id = 1, m_userId = 2,
                                         m_transactionFeePercentage = Some 250,
                                         m_monthlyVolume = 0, m_totalTransactions = 0 \<rparr>],
                    walletBills = [], walletRecipients = [],
                  users = [alice, bob], paystackRequests = [], timers = [] \<rparr>"

text \<open>Alice and Bob initialise their wallets.\<close>

definition freshWallets :: state where
  "freshWallets = snd (initialize env0 bob ''4321'' (snd (initialize env0 alice ''1234'' initialStore)))"

text \<open>Alice funds 1000 by card and the gateway confirms the charge: 985 are credited.\<close>

definition fundedOnce :: state where
  "fundedOnce =
     snd (verifyFunding (envAt 2000 ''2'') alice ''VH_1''
       (snd (fundWallet (envAt 1000 ''1'') alice \<lparr> fi_amount = 1000, fi_paymentMethod = Card \<rparr>
          freshWallets)))"

text \<open>The funding is verified a second time.\<close>

definition verifiedTwice :: "(error + verify_result) \<times> state" where
  "verifiedTwice = verifyFunding (envAt 3000 ''3'') alice ''VH_1'' fundedOnce"

text \<open>Alice funds 10152 (10000 after the 1.5% fee) and Bob funds 3046 (3000 after the fee):
  the ledger of the transfer, bill and withdrawal scenarios.\<close>

definition ledgerAB :: state where
  "ledgerAB =
     snd (verifyFunding (envAt 4000 ''4'') bob ''VH_3''
       (snd (fundWallet (envAt 3000 ''3'') bob \<lparr> fi_amount = 3046, fi_paymentMethod = Card \<rparr>
         (snd (verifyFunding (envAt 2000 ''2'') alice ''VH_1''
           (snd (fundWallet (envAt 1000 ''1'') alice
                  \<lparr> fi_amount = 10152, fi_paymentMethod = Card \<rparr> freshWallets)))))))"

text \<open>Alice sends 5000 to Bob.\<close>

definition send5000 :: transfer_input where
  "send5000 = \<lparr> ti_recipientIdentifier = ''bob@campus'', ti_amount = 5000, ti_pin = ''1234'' \<rparr>"

definition sent5000 :: "(error + transfer_result) \<times> state" where
  "sent5000 = transfer (envAt 5000 ''5'') alice send5000 ledgerAB"




text \<open>Alice pays 2000 to Bob's business.\<close>

definition pay2000 :: merchant_input where
  "pay2000 = \<lparr> mi_merchantId = 1, mi_amount = 2000, mi_pin = ''1234'' \<rparr>"

definition paid2000 :: "(error + merchant_result) \<times> state" where
  "paid2000 = payMerchant (envAt 6000 ''6'') alice pay2000 ledgerAB"

text \<open>Alice buys airtime for 1000.\<close>

definition airtime1000 :: bill_input where
  "airtime1000 = \<lparr> bi_billType = ''airtime'', bi_amount = 1000, bi_pin = ''1234'' \<rparr>"

definition paidAirtime :: "(error + bill_result) \<times> state" where
  "paidAirtime = payBill (envAt 7000 ''7'') alice airtime1000 ledgerAB"

text \<open>Bob, with 3000 available, asks to withdraw 2000 and then 1000.\<close>

definition withdraw2000 :: withdraw_input where
  "withdraw2000 = \<lparr> wi_bankId = 1, wi_amount = 2000, wi_pin = ''4321'' \<rparr>"

definition withdraw1000 :: withdraw_input where
  "withdraw1000 = \<lparr> wi_bankId = 1, wi_amount = 1000, wi_pin = ''4321'' \<rparr>"

definition withdrawn1000 :: "(error + withdraw_result) \<times> state" where
  "withdrawn1000 = withdraw (envAt 8000 ''8'') bob withdraw1000 ledgerAB"

text \<open>Bob starts a top-up of 1000, asks to withdraw 1000, and completes the top-up before
  the withdrawal settles; the withdrawal's timer then fires, and Bob buys airtime for
  1000.\<close>

definition bobTopUpStarted :: state where
  "bobTopUpStarted =
     snd (fundWallet (envAt 7000 ''7'') bob \<lparr> fi_amount = 1000, fi_paymentMethod = Card \<rparr> ledgerAB)"

definition bobWithdrawing :: state where
  "bobWithdrawing = snd (withdraw (envAt 8000 ''8'') bob withdraw1000 bobTopUpStarted)"

definition bobToppedUp :: state where
  "bobToppedUp = snd (verifyFunding (envAt 9000 ''9'') bob ''VH_7'' bobWithdrawing)"

definition bobSettled :: state where
  "bobSettled = fireTimer (envAt 11000 ''11'') (last (timers bobWithdrawing)) bobToppedUp"

definition bobAirtime :: bill_input where
  "bobAirtime = \<lparr> bi_billType = ''airtime'', bi_amount = 1000, bi_pin = ''4321'' \<rparr>"

definition bobPaidAirtime :: "(error + bill_result) \<times> state" where
  "bobPaidAirtime = payBill (envAt 12000 ''12'') bob bobAirtime bobSettled"

text \<open>Alice funds 1000000 (985000 after the fee), pays 400000 to Bob's business and, on the
  same day, asks to send 200000 to Bob.\<close>

definition fundedLarge :: state where
  "fundedLarge =
     snd (verifyFunding (envAt 2000 ''2'') alice ''VH_1''
       (snd (fundWallet (envAt 1000 ''1'') alice \<lparr> fi_amount = 1000000, fi_paymentMethod = Card \<rparr>
          freshWallets)))"

definition pay400000 :: merchant_input where
  "pay400000 = \<lparr> mi_merchantId = 1, mi_amount = 400000, mi_pin = ''1234'' \<rparr>"

definition paid400000 :: "(error + merchant_result) \<times> state" where
  "paid400000 = payMerchant (envAt 3000 ''3'') alice pay400000 fundedLarge"

definition send200000 :: transfer_input where
  "send200000 = \<lparr> ti_recipientIdentifier = ''bob@campus'', ti_amount = 200000, ti_pin = ''1234'' \<rparr>"

definition sent200000 :: "(error + transfer_result) \<times> state" where
  "sent200000 = transfer (envAt 4000 ''4'') alice send200000 (snd paid400000)"

section \<open>The fee policy in the specification's words\<close>

text \<open>Round half up to the nearest minor unit, and the transfer fee
  \<open>max(100, round(amount * 0.005))\<close>, over the reals.\<close>

definition round_half_up :: "real \<Rightarrow> int" where
  "round_half_up x = \<lfloor>x + 1 / 2\<rfloor>"

definition spec_transfer_fee :: "int \<Rightarrow> int" where
  "spec_transfer_fee amount = max 100 (round_half_up (real_of_int amount * 0.005))"

section \<open>The limit policy in the specification's words\<close>

text \<open>The spent total of a window: the sum of the magnitudes of the wallet's completed
  debits of the kinds transfer, payment and withdrawal created since the window's start.\<close>

definition spec_spentSince :: "state \<Rightarrow> nat \<Rightarrow> int \<Rightarrow> int" where
  "spec_spentSince s wid start =
     sum_list (map (\<lambda>t. - t_amount t)
       (filter (\<lambda>t. t_walletId t = wid \<and> start \<le> t_createdAt t \<and> t_status t = Completed
                     \<and> t_amount t < 0
                     \<and> (t_type t = Transfer \<or> t_type t = Payment \<or> t_type t = Withdrawal))
          (walletTransactions s)))"

section \<open>Auxiliary facts\<close>

lemma round_half_percent_spec: "round_half_percent a = round_half_up (real_of_int a * 0.005)"
proof -
  have "real_of_int a * 0.005 + 1 / 2 = real_of_int (a + 100) / real_of_int 200"
    by simp
  then have "\<lfloor>real_of_int a * 0.005 + 1 / 2\<rfloor> = (a + 100) div 200"
    by (simp only: floor_divide_of_int_eq)
  then show ?thesis
    by (simp add: round_half_percent_def round_half_up_def)
qed

lemma insertTransaction_Some:
  "insertTransaction t s = Some s' \<Longrightarrow>
     s' = s\<lparr>walletTransactions := walletTransactions s @ [t]\<rparr>
     \<and> t_reference t \<notin> set (map t_reference (walletTransactions s))"
  by (auto simp: insertTransaction_def split: if_splits)

lemma upsertRecipient_Some:
  "upsertRecipient env uid rid amount s = Some s' \<Longrightarrow>
     e_recipientUpsertOk env \<and> wallets s' = wallets s
     \<and> walletTransactions s' = walletTransactions s \<and> walletHolds s' = walletHolds s"
  by (auto simp: upsertRecipient_def split: if_splits)

text \<open>The name \<^verbatim>\<open>users\<close> is not among the exports, so the recipient query throws and no
  transfer request returns a result.\<close>

lemma users_unbound: "\<not> imported ''users''"
  by code_simp

lemma findRecipient_throws: "findRecipient env s ident = Inl InternalError"
  by (simp add: findRecipient_def users_unbound)

lemma transfer_never_completes: "transfer env u inp s \<noteq> (Inr r, s')"
  by (auto simp: transfer_def Let_def findRecipient_throws split: if_splits option.splits)


text \<open>The three rows the unit of work of a transfer writes before the upsert: the
  magnitude of the sender row's amount is the recipient row's amount plus the fee.\<close>

lemma transfer_legs_conservation:
  assumes "0 \<le> amount" and "0 \<le> fee"
  shows "\<bar>t_amount (senderLeg env sw reference amount fee)\<bar>
           = t_amount (recipientLeg env rw reference (amount - fee))
             + \<bar>t_amount (feeLeg env sw reference amount fee)\<bar>"
  using assms by (simp add: senderLeg_def recipientLeg_def feeLeg_def)

text \<open>Reading a wallet back after an update by primary key.\<close>

lemma find_user_after_update:
  assumes "distinct (map w_id ws)" and "find (\<lambda>x. w_userId x = uid) ws = Some w"
    and "\<And>x. w_userId (f x) = w_userId x"
  shows "find (\<lambda>x. w_userId x = uid) (map (\<lambda>x. if w_id x = w_id w then f x else x) ws) = Some (f w)"
  using assms(1,2)
proof (induction ws)
  case Nil
  then show ?case by simp
next
  case (Cons a ws)
  show ?case
  proof (cases "w_userId a = uid")
    case True
    with Cons.prems show ?thesis using assms(3) by simp
  next
    case False
    with Cons.prems have w: "find (\<lambda>x. w_userId x = uid) ws = Some w" by simp
    then have "w \<in> set ws" by (auto simp: find_Some_iff)
    with Cons.prems have "w_id a \<noteq> w_id w" by (auto simp: image_iff)
    with Cons False w show ?thesis by simp
  qed
qed

lemma spec_transfer_fee_code: "spec_transfer_fee a = max 100 (round_half_percent a)"
  by (simp add: spec_transfer_fee_def round_half_percent_spec)

section \<open>Funding range\<close>

text \<open>
  Claim C10. The fund-wallet operation rejects every amount below 100 or above 10000000
  minor units with the input error (code \<open>BAD_REQUEST\<close>) and leaves the whole state as it
  was: no request is sent to the gateway and no row is written. Every transaction row a
  call of the operation adds is a pending deposit whose amount lies in [100, 10000000].
\<close>

theorem fundWallet_rejects_out_of_range:
  "(fi_amount inp < 100 \<or> 10000000 < fi_amount inp \<longrightarrow>
      fundWallet env u inp s = (Inl InvalidInput, s) \<and> code_of InvalidInput = BAD_REQUEST)
   \<and> (\<forall>t \<in> set (walletTransactions (snd (fundWallet env u inp s))) - set (walletTransactions s).
         t_status t = Pending \<and> t_type t = Deposit \<and> 100 \<le> t_amount t \<and> t_amount t \<le> 10000000)"
  by (auto simp: fundWallet_def fundWalletSchema_def insertTransaction_def Let_def
           split: option.splits if_splits)

theorem fundWallet_rejects_out_of_range_witness:
  "fundWallet env0 alice \<lparr> fi_amount = 99, fi_paymentMethod = Card \<rparr> freshWallets
     = (Inl InvalidInput, freshWallets)
   \<and> fundWallet env0 alice \<lparr> fi_amount = 10000001, fi_paymentMethod = Card \<rparr> freshWallets
     = (Inl InvalidInput, freshWallets)
   \<and> last (walletTransactions (snd (fundWallet env0 alice
        \<lparr> fi_amount = 100, fi_paymentMethod = Card \<rparr> freshWallets)))
       \<in> set (walletTransactions (snd (fundWallet env0 alice
        \<lparr> fi_amount = 100, fi_paymentMethod = Card \<rparr> freshWallets))) - set (walletTransactions freshWallets)
   \<and> t_status (last (walletTransactions (snd (fundWallet env0 alice
        \<lparr> fi_amount = 100, fi_paymentMethod = Card \<rparr> freshWallets)))) = Pending
   \<and> t_amount (last (walletTransactions (snd (fundWallet env0 alice
        \<lparr> fi_amount = 100, fi_paymentMethod = Card \<rparr> freshWallets)))) \<le> 10000000"
proof -
  let ?low = "\<lparr> fi_amount = 99, fi_paymentMethod = Card \<rparr>"
  let ?high = "\<lparr> fi_amount = 10000001, fi_paymentMethod = Card \<rparr>"
  let ?ok = "\<lparr> fi_amount = 100, fi_paymentMethod = Card \<rparr>"
  let ?s' = "snd (fundWallet env0 alice ?ok freshWallets)"
  have l: "fi_amount ?low < 100 \<or> 10000000 < fi_amount ?low" by simp
  have h: "fi_amount ?high < 100 \<or> 10000000 < fi_amount ?high" by simp
  have m: "last (walletTransactions ?s') \<in> set (walletTransactions ?s') - set (walletTransactions freshWallets)"
    by code_simp
  from l fundWallet_rejects_out_of_range [of ?low env0 alice freshWallets]
  have 1: "fundWallet env0 alice ?low freshWallets = (Inl InvalidInput, freshWallets)" by blast
  from h fundWallet_rejects_out_of_range [of ?high env0 alice freshWallets]
  have 2: "fundWallet env0 alice ?high freshWallets = (Inl InvalidInput, freshWallets)" by blast
  from m fundWallet_rejects_out_of_range [of ?ok env0 alice freshWallets]
  have 3: "t_status (last (walletTransactions ?s')) = Pending
           \<and> t_amount (last (walletTransactions ?s')) \<le> 10000000" by blast
  from 1 2 3 m show ?thesis by blast
qed

section \<open>The balance equation of completed rows\<close>

lemma payMerchantTx_Some:
  assumes "payMerchantTx env sw mw merch reference amount fee s = Some s'"
  shows "walletTransactions s' = walletTransactions s @
           [merchantSenderLeg env sw reference amount,
            merchantReceiveLeg env mw reference (amount - fee) fee]
           @ (if fee > 0 then [merchantFeeLeg env mw reference (amount - fee) fee] else [])"
  using assms
  by (auto simp: payMerchantTx_def Let_def updateWallet_def
           split: option.splits if_splits dest!: insertTransaction_Some)

lemma payMerchant_Inr:
  assumes "payMerchant env u inp s = (Inr r, s')"
  obtains sw merch mw where
    "walletOfUser s (u_id u) = Some sw"
    "mi_amount inp \<le> w_availableBalance sw"
    "walletOfUser s (m_userId merch) = Some mw"
    "payMerchantTx env sw mw merch (''MERCH_'' @ e_nonce env) (mi_amount inp)
        (merchantFee (m_transactionFeePercentage merch) (mi_amount inp)) s = Some s'"
    "mr_fee r = merchantFee (m_transactionFeePercentage merch) (mi_amount inp)"
  using assms
  by (auto simp: payMerchant_def Let_def split: if_splits option.splits)

text \<open>The rows the other operations insert are pending or processing.\<close>

lemma fundWallet_new_rows:
  "t \<in> set (walletTransactions (snd (fundWallet env u inp s))) - set (walletTransactions s)
     \<Longrightarrow> t_status t = Pending"
  by (auto simp: fundWallet_def insertTransaction_def Let_def split: option.splits if_splits)

lemma payBill_new_rows:
  "t \<in> set (walletTransactions (snd (payBill env u inp s))) - set (walletTransactions s)
     \<Longrightarrow> t_status t = Processing"
  by (auto simp: payBill_def insertTransaction_def updateWallet_def Let_def
           split: option.splits if_splits)

lemma withdraw_new_rows:
  "t \<in> set (walletTransactions (snd (withdraw env u inp s))) - set (walletTransactions s)
     \<Longrightarrow> t_status t = Processing"
  by (auto simp: withdraw_def insertTransaction_def insertHold_def updateWallet_def Let_def
           split: option.splits if_splits)

lemma paid2000_result:
  "fst paid2000 = Inr \<lparr> mr_reference = ''MERCH_6'', mr_amount = 2000, mr_fee = 50,
                         mr_merchantAmount = 1950, mr_newBalance = 8000 \<rparr>"
  by code_simp

text \<open>
  Claim C3, as the code has it. In a merchant payment the payer row and the merchant row,
  inserted with status completed, satisfy \<open>balanceAfter = balanceBefore + netAmount\<close>. The
  fee row, written when the fee is positive, is a record of the fee only: it is inserted
  completed with a net amount of minus the fee and a \<open>balanceAfter\<close> equal to its
  \<open>balanceBefore\<close>. Funding inserts pending rows, bill payment and withdrawal insert
  processing rows.
\<close>

theorem completed_rows_balance_equation:
  "(payMerchant env u minp s = (Inr mr, s'') \<longrightarrow>
      (\<exists>S M Fs. walletTransactions s'' = walletTransactions s @ [S, M] @ Fs
         \<and> list_all (\<lambda>t. t_status t = Completed) ([S, M] @ Fs)
         \<and> t_balanceAfter S = t_balanceBefore S + t_netAmount S
         \<and> t_balanceAfter M = t_balanceBefore M + t_netAmount M
         \<and> length Fs = (if 0 < mr_fee mr then 1 else 0)
         \<and> list_all (\<lambda>F. t_type F = Fee \<and> t_netAmount F = - mr_fee mr
                          \<and> t_balanceAfter F = t_balanceBefore F) Fs))
   \<and> (\<forall>t \<in> set (walletTransactions (snd (fundWallet env u finp s))) - set (walletTransactions s).
         t_status t = Pending)
   \<and> (\<forall>t \<in> set (walletTransactions (snd (payBill env u binp s))) - set (walletTransactions s).
         t_status t = Processing)
   \<and> (\<forall>t \<in> set (walletTransactions (snd (withdraw env u winp s))) - set (walletTransactions s).
         t_status t = Processing)"
proof (intro conjI impI)
  assume a: "payMerchant env u minp s = (Inr mr, s'')"
  let ?ref = "''MERCH_'' @ e_nonce env"
  from a obtain sw merch mw where
    tx: "payMerchantTx env sw mw merch ?ref (mi_amount minp)
           (merchantFee (m_transactionFeePercentage merch) (mi_amount minp)) s = Some s''"
    and r: "mr_fee mr = merchantFee (m_transactionFeePercentage merch) (mi_amount minp)"
    by (elim payMerchant_Inr)
  let ?fee = "mr_fee mr"
  let ?S = "merchantSenderLeg env sw ?ref (mi_amount minp)"
  let ?M = "merchantReceiveLeg env mw ?ref (mi_amount minp - ?fee) ?fee"
  let ?Fs = "if ?fee > 0 then [merchantFeeLeg env mw ?ref (mi_amount minp - ?fee) ?fee] else []"
  have rows: "walletTransactions s'' = walletTransactions s @ [?S, ?M] @ ?Fs"
    using payMerchantTx_Some [OF tx] r by simp
  have "list_all (\<lambda>t. t_status t = Completed) ([?S, ?M] @ ?Fs)"
    "t_balanceAfter ?S = t_balanceBefore ?S + t_netAmount ?S"
    "t_balanceAfter ?M = t_balanceBefore ?M + t_netAmount ?M"
    "length ?Fs = (if 0 < mr_fee mr then 1 else 0)"
    "list_all (\<lambda>F. t_type F = Fee \<and> t_netAmount F = - mr_fee mr
                          \<and> t_balanceAfter F = t_balanceBefore F) ?Fs"
    by (simp_all add: merchantSenderLeg_def merchantReceiveLeg_def merchantFeeLeg_def)
  with rows show "\<exists>S M Fs. walletTransactions s'' = walletTransactions s @ [S, M] @ Fs
         \<and> list_all (\<lambda>t. t_status t = Completed) ([S, M] @ Fs)
         \<and> t_balanceAfter S = t_balanceBefore S + t_netAmount S
         \<and> t_balanceAfter M = t_balanceBefore M + t_netAmount M
         \<and> length Fs = (if 0 < mr_fee mr then 1 else 0)
         \<and> list_all (\<lambda>F. t_type F = Fee \<and> t_netAmount F = - mr_fee mr
                          \<and> t_balanceAfter F = t_balanceBefore F) Fs"
    by blast
next
  show "\<forall>t \<in> set (walletTransactions (snd (fundWallet env u finp s))) - set (walletTransactions s).
         t_status t = Pending"
    using fundWallet_new_rows by blast
  show "\<forall>t \<in> set (walletTransactions (snd (payBill env u binp s))) - set (walletTransactions s).
         t_status t = Processing"
    using payBill_new_rows by blast
  show "\<forall>t \<in> set (walletTransactions (snd (withdraw env u winp s))) - set (walletTransactions s).
         t_status t = Processing"
    using withdraw_new_rows by blast
qed

theorem completed_rows_balance_equation_witness:
  "payMerchant (envAt 6000 ''6'') alice pay2000 ledgerAB =
     (Inr \<lparr> mr_reference = ''MERCH_6'', mr_amount = 2000, mr_fee = 50,
             mr_merchantAmount = 1950, mr_newBalance = 8000 \<rparr>, snd paid2000)
   \<and> (\<exists>S M Fs. walletTransactions (snd paid2000) = walletTransactions ledgerAB @ [S, M] @ Fs
         \<and> list_all (\<lambda>t. t_status t = Completed) ([S, M] @ Fs)
         \<and> t_balanceAfter S = t_balanceBefore S + t_netAmount S
         \<and> t_balanceAfter M = t_balanceBefore M + t_netAmount M
         \<and> length Fs = 1
         \<and> list_all (\<lambda>F. t_type F = Fee \<and> t_netAmount F = - 50
                          \<and> t_balanceAfter F = t_balanceBefore F) Fs)
   \<and> last (walletTransactions (snd (fundWallet (envAt 1000 ''1'') alice
              \<lparr> fi_amount = 1000, fi_paymentMethod = Card \<rparr> freshWallets)))
       \<in> set (walletTransactions (snd (fundWallet (envAt 1000 ''1'') alice
              \<lparr> fi_amount = 1000, fi_paymentMethod = Card \<rparr> freshWallets)))
         - set (walletTransactions freshWallets)
   \<and> t_status (last (walletTransactions (snd (fundWallet (envAt 1000 ''1'') alice
              \<lparr> fi_amount = 1000, fi_paymentMethod = Card \<rparr> freshWallets)))) = Pending
   \<and> last (walletTransactions (snd (payBill (envAt 7000 ''7'') alice airtime1000 ledgerAB)))
       \<in> set (walletTransactions (snd (payBill (envAt 7000 ''7'') alice airtime1000 ledgerAB)))
         - set (walletTransactions ledgerAB)
   \<and> t_status (last (walletTransactions
         (snd (payBill (envAt 7000 ''7'') alice airtime1000 ledgerAB)))) = Processing
   \<and> last (walletTransactions (snd (withdraw (envAt 8000 ''8'') bob withdraw1000 ledgerAB)))
       \<in> set (walletTransactions (snd (withdraw (envAt 8000 ''8'') bob withdraw1000 ledgerAB)))
         - set (walletTransactions ledgerAB)
   \<and> t_status (last (walletTransactions
         (snd (withdraw (envAt 8000 ''8'') bob withdraw1000 ledgerAB)))) = Processing"
proof -
  let ?m = "\<lparr> mr_reference = ''MERCH_6'', mr_amount = 2000, mr_fee = 50,
              mr_merchantAmount = 1950, mr_newBalance = 8000 \<rparr>"
  have pay: "payMerchant (envAt 6000 ''6'') alice pay2000 ledgerAB = (Inr ?m, snd paid2000)"
    using paid2000_result by (simp add: paid2000_def prod_eq_iff)
  note tm = completed_rows_balance_equation
    [where env = "envAt 6000 ''6''" and u = alice and minp = pay2000 and s = ledgerAB
       and mr = ?m and s'' = "snd paid2000"]
  from pay tm have m: "\<exists>S M Fs. walletTransactions (snd paid2000) = walletTransactions ledgerAB @ [S, M] @ Fs
         \<and> list_all (\<lambda>t. t_status t = Completed) ([S, M] @ Fs)
         \<and> t_balanceAfter S = t_balanceBefore S + t_netAmount S
         \<and> t_balanceAfter M = t_balanceBefore M + t_netAmount M
         \<and> length Fs = 1
         \<and> list_all (\<lambda>F. t_type F = Fee \<and> t_netAmount F = - 50
                          \<and> t_balanceAfter F = t_balanceBefore F) Fs"
    by simp
  let ?fund = "snd (fundWallet (envAt 1000 ''1'') alice
                 \<lparr> fi_amount = 1000, fi_paymentMethod = Card \<rparr> freshWallets)"
  let ?bill = "snd (payBill (envAt 7000 ''7'') alice airtime1000 ledgerAB)"
  let ?wdl = "snd (withdraw (envAt 8000 ''8'') bob withdraw1000 ledgerAB)"
  have f: "last (walletTransactions ?fund)
             \<in> set (walletTransactions ?fund) - set (walletTransactions freshWallets)"
    by code_simp
  have b: "last (walletTransactions ?bill)
             \<in> set (walletTransactions ?bill) - set (walletTransactions ledgerAB)"
    by code_simp
  have w: "last (walletTransactions ?wdl)
             \<in> set (walletTransactions ?wdl) - set (walletTransactions ledgerAB)"
    by code_simp
  from f completed_rows_balance_equation
    [where env = "envAt 1000 ''1''" and u = alice and s = freshWallets
       and finp = "\<lparr> fi_amount = 1000, fi_paymentMethod = Card \<rparr>"]
  have f': "t_status (last (walletTransactions ?fund)) = Pending" by blast
  from b completed_rows_balance_equation
    [where env = "envAt 7000 ''7''" and u = alice and s = ledgerAB and binp = airtime1000]
  have b': "t_status (last (walletTransactions ?bill)) = Processing" by blast
  from w completed_rows_balance_equation
    [where env = "envAt 8000 ''8''" and u = bob and s = ledgerAB and winp = withdraw1000]
  have w': "t_status (last (walletTransactions ?wdl)) = Processing" by blast
  from pay m f f' b b' w w' show ?thesis by blast
qed

text \<open>The claim as the specification states it fails on the fee row of Alice's payment of
  2000 to Bob's business: the row is inserted completed, with balance 4950 before and
  after and a net amount of -50.\<close>

theorem completed_rows_balance_equation_counterexample:
  "last (walletTransactions (snd paid2000)) =
     \<lparr> t_walletId = 2, t_reference = ''MERCH_6_F'', t_type = Fee, t_subType = [],
       t_amount = - 50, t_fee = 0, t_netAmount = - 50,
       t_balanceBefore = 4950, t_balanceAfter = 4950,
       t_status = Completed, t_createdAt = 6000, t_completedAt = Some 6000 \<rparr>
   \<and> last (walletTransactions (snd paid2000)) \<notin> set (walletTransactions ledgerAB)
   \<and> t_status (last (walletTransactions (snd paid2000))) = Completed
   \<and> t_balanceAfter (last (walletTransactions (snd paid2000)))
       \<noteq> t_balanceBefore (last (walletTransactions (snd paid2000)))
         + t_netAmount (last (walletTransactions (snd paid2000)))"
  by code_simp

section \<open>The favourite list and the transfer's unit of work\<close>







section \<open>Bill payment debits at once\<close>

lemma walletOfUser_updateWallet:
  assumes "distinct (map w_id (wallets s))" and "walletOfUser s uid = Some w"
    and "\<And>x. w_userId (f x) = w_userId x"
  shows "walletOfUser (updateWallet (w_id w) f s) uid = Some (f w)"
  using find_user_after_update [OF assms(1) assms(2) [unfolded walletOfUser_def] assms(3)]
  by (simp add: walletOfUser_def updateWallet_def)

lemma fireTimer_bill_frame:
  "wallets (fireTimer env (BillTimer billId reference) s) = wallets s"
  "walletHolds (fireTimer env (BillTimer billId reference) s) = walletHolds s"
  by (simp_all add: updateTransaction_def)

lemma payBill_failed: "\<not> e_isSuccess env \<Longrightarrow> \<exists>e. payBill env u inp s = (Inl e, s)"
  by (simp add: payBill_def Let_def split: option.splits)

lemma payBill_Inr:
  assumes "payBill env u inp s = (Inr r, s')"
  obtains w s2 where
    "walletOfUser s (u_id u) = Some w"
    "e_isSuccess env"
    "bi_amount inp + max 200 (round_one_and_half_percent (bi_amount inp)) \<le> w_availableBalance w"
    "r = \<lparr> br_reference = ''BILL_'' @ e_nonce env, br_amount = bi_amount inp,
           br_fee = max 200 (round_one_and_half_percent (bi_amount inp)),
           br_totalAmount = bi_amount inp + max 200 (round_one_and_half_percent (bi_amount inp)),
           br_status = Processing,
           br_newBalance = w_balance w
              - (bi_amount inp + max 200 (round_one_and_half_percent (bi_amount inp))) \<rparr>"
    "s2 = updateWallet (w_id w)
            (\<lambda>x. x\<lparr>w_balance := w_balance w
                       - (bi_amount inp + max 200 (round_one_and_half_percent (bi_amount inp))),
                   w_availableBalance := w_availableBalance w
                       - (bi_amount inp + max 200 (round_one_and_half_percent (bi_amount inp))),
                   w_lastTransactionAt := Some (e_now env)\<rparr>) s"
    "wallets s' = wallets s2" "walletHolds s' = walletHolds s"
    "\<exists>t. walletTransactions s' = walletTransactions s @ [t] \<and> t_status t = Processing
          \<and> t_reference t = ''BILL_'' @ e_nonce env
          \<and> t_amount t = - (bi_amount inp + max 200 (round_one_and_half_percent (bi_amount inp)))"
    "timers s' = timers s @ [BillTimer (nextId (map bl_id (walletBills s))) (''BILL_'' @ e_nonce env)]"
  using assms
  by (auto simp: payBill_def Let_def updateWallet_def
           split: if_splits option.splits dest!: insertTransaction_Some)

lemma paidAirtime_result:
  "fst paidAirtime = Inr \<lparr> br_reference = ''BILL_7'', br_amount = 1000, br_fee = 200,
                            br_totalAmount = 1200, br_status = Processing, br_newBalance = 8800 \<rparr>"
  by code_simp

lemma ledgerAB_alice:
  "walletOfUser ledgerAB (u_id alice) =
     Some \<lparr> w_id = 1, w_userId = 1, w_balance = 10000, w_availableBalance = 10000,
            w_walletPinHash = ''#1234'', w_dailyLimit = 500000,
            w_monthlyLimit = 2000000, w_lastTransactionAt = Some 2000 \<rparr>"
  by code_simp

lemma ledgerAB_bob:
  "walletOfUser ledgerAB (u_id bob) =
     Some \<lparr> w_id = 2, w_userId = 2, w_balance = 3000, w_availableBalance = 3000,
            w_walletPinHash = ''#4321'', w_dailyLimit = 500000,
            w_monthlyLimit = 2000000, w_lastTransactionAt = Some 4000 \<rparr>"
  by code_simp

lemma ledgerAB_distinct: "distinct (map w_id (wallets ledgerAB))"
  by code_simp

text \<open>
  Claim C5, as the code has it. A bill payment accepted into the processing state places
  no hold: in the unit of work that records the processing transaction it debits amount +
  fee from both the balance and the available balance, the fee being
  \<open>max 200 (round (amount * 0.015))\<close>. The settlement armed by the request marks the bill
  and the transaction completed and changes no wallet and no hold. When the biller
  outcome is a failure the request returns an error and the store is left as it was.
\<close>

theorem payBill_debits_at_once:
  assumes "distinct (map w_id (wallets s))"
  shows "(payBill env u inp s = (Inr r, s') \<longrightarrow>
            br_status r = Processing
          \<and> br_fee r = max 200 (round_one_and_half_percent (bi_amount inp))
          \<and> br_totalAmount r = bi_amount inp + br_fee r
          \<and> walletHolds s' = walletHolds s
          \<and> (\<exists>w. walletOfUser s (u_id u) = Some w
                \<and> walletOfUser s' (u_id u) =
                    Some (w\<lparr>w_balance := w_balance w - br_totalAmount r,
                            w_availableBalance := w_availableBalance w - br_totalAmount r,
                            w_lastTransactionAt := Some (e_now env)\<rparr>))
          \<and> (\<exists>t. walletTransactions s' = walletTransactions s @ [t] \<and> t_status t = Processing
                \<and> t_reference t = br_reference r \<and> t_amount t = - br_totalAmount r)
          \<and> (\<exists>billId. timers s' = timers s @ [BillTimer billId (br_reference r)]))
     \<and> wallets (fireTimer env' (BillTimer billId reference) s2) = wallets s2
     \<and> walletHolds (fireTimer env' (BillTimer billId reference) s2) = walletHolds s2
     \<and> map t_status (walletTransactions (fireTimer env' (BillTimer billId reference) s2))
         = map (\<lambda>t. if t_reference t = reference then Completed else t_status t)
             (walletTransactions s2)
     \<and> map bl_status (walletBills (fireTimer env' (BillTimer billId reference) s2))
         = map (\<lambda>b. if bl_id b = billId then Completed else bl_status b) (walletBills s2)
     \<and> (\<not> e_isSuccess env \<longrightarrow> (\<exists>e. payBill env u inp s = (Inl e, s)))"
proof (intro conjI impI)
  assume a: "payBill env u inp s = (Inr r, s')"
  let ?total = "bi_amount inp + max 200 (round_one_and_half_percent (bi_amount inp))"
  from a obtain w sa where
    w: "walletOfUser s (u_id u) = Some w"
    and r: "r = \<lparr> br_reference = ''BILL_'' @ e_nonce env, br_amount = bi_amount inp,
           br_fee = max 200 (round_one_and_half_percent (bi_amount inp)),
           br_totalAmount = ?total, br_status = Processing,
           br_newBalance = w_balance w - ?total \<rparr>"
    and sa: "sa = updateWallet (w_id w)
            (\<lambda>x. x\<lparr>w_balance := w_balance w - ?total,
                   w_availableBalance := w_availableBalance w - ?total,
                   w_lastTransactionAt := Some (e_now env)\<rparr>) s"
    and ws: "wallets s' = wallets sa" and hs: "walletHolds s' = walletHolds s"
    and tx: "\<exists>t. walletTransactions s' = walletTransactions s @ [t] \<and> t_status t = Processing
          \<and> t_reference t = ''BILL_'' @ e_nonce env \<and> t_amount t = - ?total"
    and tm: "timers s' = timers s @ [BillTimer (nextId (map bl_id (walletBills s))) (''BILL_'' @ e_nonce env)]"
    by (elim payBill_Inr)
  from r show "br_status r = Processing"
    "br_fee r = max 200 (round_one_and_half_percent (bi_amount inp))"
    "br_totalAmount r = bi_amount inp + br_fee r"
    by simp_all
  from hs show "walletHolds s' = walletHolds s" .
  have "walletOfUser sa (u_id u) =
          Some (w\<lparr>w_balance := w_balance w - ?total,
                  w_availableBalance := w_availableBalance w - ?total,
                  w_lastTransactionAt := Some (e_now env)\<rparr>)"
    unfolding sa by (rule walletOfUser_updateWallet [OF assms w]) simp
  then have "walletOfUser s' (u_id u) =
          Some (w\<lparr>w_balance := w_balance w - br_totalAmount r,
                  w_availableBalance := w_availableBalance w - br_totalAmount r,
                  w_lastTransactionAt := Some (e_now env)\<rparr>)"
    using ws r by (simp add: walletOfUser_def)
  with w show "\<exists>w. walletOfUser s (u_id u) = Some w
                \<and> walletOfUser s' (u_id u) =
                    Some (w\<lparr>w_balance := w_balance w - br_totalAmount r,
                            w_availableBalance := w_availableBalance w - br_totalAmount r,
                            w_lastTransactionAt := Some (e_now env)\<rparr>)"
    by blast
  from tx r show "\<exists>t. walletTransactions s' = walletTransactions s @ [t] \<and> t_status t = Processing
                \<and> t_reference t = br_reference r \<and> t_amount t = - br_totalAmount r"
    by simp
  from tm r show "\<exists>billId. timers s' = timers s @ [BillTimer billId (br_reference r)]"
    by simp
next
  show "wallets (fireTimer env' (BillTimer billId reference) s2) = wallets s2"
    by (rule fireTimer_bill_frame)
  show "walletHolds (fireTimer env' (BillTimer billId reference) s2) = walletHolds s2"
    by (rule fireTimer_bill_frame)
  show "map t_status (walletTransactions (fireTimer env' (BillTimer billId reference) s2))
         = map (\<lambda>t. if t_reference t = reference then Completed else t_status t)
             (walletTransactions s2)"
    by (auto simp: updateTransaction_def)
  show "map bl_status (walletBills (fireTimer env' (BillTimer billId reference) s2))
         = map (\<lambda>b. if bl_id b = billId then Completed else bl_status b) (walletBills s2)"
    by (auto simp: updateTransaction_def)
next
  assume "\<not> e_isSuccess env"
  then show "\<exists>e. payBill env u inp s = (Inl e, s)" by (rule payBill_failed)
qed

theorem payBill_debits_at_once_witness:
  "distinct (map w_id (wallets ledgerAB))
   \<and> payBill (envAt 7000 ''7'') alice airtime1000 ledgerAB =
       (Inr \<lparr> br_reference = ''BILL_7'', br_amount = 1000, br_fee = 200,
               br_totalAmount = 1200, br_status = Processing, br_newBalance = 8800 \<rparr>,
        snd paidAirtime)
   \<and> walletHolds (snd paidAirtime) = walletHolds ledgerAB
   \<and> map_option w_balance (walletOfUser ledgerAB (u_id alice)) = Some 10000
   \<and> map_option w_balance (walletOfUser (snd paidAirtime) (u_id alice)) = Some 8800
   \<and> map_option w_availableBalance (walletOfUser (snd paidAirtime) (u_id alice)) = Some 8800
   \<and> \<not> e_isSuccess ((envAt 7000 ''7'')\<lparr>e_isSuccess := False\<rparr>)
   \<and> (\<exists>e. payBill ((envAt 7000 ''7'')\<lparr>e_isSuccess := False\<rparr>) alice airtime1000 ledgerAB
             = (Inl e, ledgerAB))"
proof -
  let ?r = "\<lparr> br_reference = ''BILL_7'', br_amount = 1000, br_fee = 200,
              br_totalAmount = 1200, br_status = Processing, br_newBalance = 8800 \<rparr>"
  let ?down = "(envAt 7000 ''7'')\<lparr>e_isSuccess := False\<rparr>"
  have run: "payBill (envAt 7000 ''7'') alice airtime1000 ledgerAB = (Inr ?r, snd paidAirtime)"
    using paidAirtime_result by (simp add: paidAirtime_def prod_eq_iff)
  have h: "\<not> e_isSuccess ?down" by simp
  note th = payBill_debits_at_once [OF ledgerAB_distinct,
      where env = "envAt 7000 ''7''" and u = alice and inp = airtime1000 and r = ?r
        and s' = "snd paidAirtime"]
  from th run have holds: "walletHolds (snd paidAirtime) = walletHolds ledgerAB" by blast
  from th run have "\<exists>w. walletOfUser ledgerAB (u_id alice) = Some w
                \<and> walletOfUser (snd paidAirtime) (u_id alice) =
                    Some (w\<lparr>w_balance := w_balance w - br_totalAmount ?r,
                            w_availableBalance := w_availableBalance w - br_totalAmount ?r,
                            w_lastTransactionAt := Some (e_now (envAt 7000 ''7''))\<rparr>)"
    by blast
  then have bal: "map_option w_balance (walletOfUser ledgerAB (u_id alice)) = Some 10000
     \<and> map_option w_balance (walletOfUser (snd paidAirtime) (u_id alice)) = Some 8800
     \<and> map_option w_availableBalance (walletOfUser (snd paidAirtime) (u_id alice)) = Some 8800"
    using ledgerAB_alice by auto
  from payBill_debits_at_once [OF ledgerAB_distinct, where env = ?down] h
  have down: "\<exists>e. payBill ?down alice airtime1000 ledgerAB = (Inl e, ledgerAB)" by blast
  from ledgerAB_distinct run holds bal h down show ?thesis by blast
qed

text \<open>The claim as the specification states it fails on the airtime scenario: the
  request is accepted as processing, no hold exists, and Alice's balance has already
  dropped from 10000 to 8800.\<close>

theorem payBill_debits_at_once_counterexample:
  "fst paidAirtime = Inr \<lparr> br_reference = ''BILL_7'', br_amount = 1000, br_fee = 200,
                            br_totalAmount = 1200, br_status = Processing, br_newBalance = 8800 \<rparr>
   \<and> t_status (last (walletTransactions (snd paidAirtime))) = Processing
   \<and> walletHolds (snd paidAirtime) = []
   \<and> map w_balance (wallets ledgerAB) = [10000, 3000]
   \<and> map w_balance (wallets (snd paidAirtime)) = [8800, 3000]"
  by code_simp

section \<open>Withdrawal places a hold\<close>

text \<open>
  Claim C6. For a withdrawal request that passes the rate limit, the input schema, the PIN
  check and the bank-account checks, with a fresh reference: when the available balance is
  below amount + 1500 the request fails with the insufficient-balance error (code
  \<open>BAD_REQUEST\<close>) and the store is unchanged; otherwise a hold of amount + 1500 is
  inserted, the available balance drops by amount + 1500, the balance is unchanged and a
  processing transaction is recorded, and the settlement armed by the request is what
  lowers the balance by amount + 1500.
\<close>

theorem withdraw_places_hold:
  assumes "e_rateLimitOk env" and "withdrawSchema inp"
    and "walletOfUser s (u_id u) = Some w"
    and "e_bcrypt_compare env (wi_pin inp) (w_walletPinHash w)"
    and "find (\<lambda>b. int (bk_id b) = wi_bankId inp \<and> bk_userId b = u_id u) (walletBanks s) = Some bnk"
    and "bk_isVerified bnk"
    and "distinct (map w_id (wallets s))"
    and "''WDL_'' @ e_nonce env \<notin> set (map h_reference (walletHolds s))"
    and "''WDL_'' @ e_nonce env \<notin> set (map t_reference (walletTransactions s))"
  shows "(w_availableBalance w < wi_amount inp + 1500 \<longrightarrow>
           (\<exists>e. withdraw env u inp s = (Inl e, s)
               \<and> (e = InsufficientBalance \<or> e = InsufficientBalanceWithFee 1500)
               \<and> code_of e = BAD_REQUEST))
     \<and> (wi_amount inp + 1500 \<le> w_availableBalance w \<longrightarrow>
           (\<exists>r s'. withdraw env u inp s = (Inr r, s')
               \<and> wr_fee r = 1500 \<and> wr_totalAmount r = wi_amount inp + 1500
               \<and> wr_status r = Processing
               \<and> wr_newAvailableBalance r = w_availableBalance w - (wi_amount inp + 1500)
               \<and> walletHolds s' = walletHolds s @
                    [\<lparr> h_walletId = w_id w, h_amount = wi_amount inp + 1500,
                       h_reason = ''withdrawal'', h_reference = ''WDL_'' @ e_nonce env,
                       h_expiresAt = e_now env + 24 * 60 * 60 * 1000, h_releasedAt = None \<rparr>]
               \<and> walletOfUser s' (u_id u) =
                    Some (w\<lparr>w_availableBalance := w_availableBalance w - (wi_amount inp + 1500)\<rparr>)
               \<and> map_option w_balance (walletOfUser s' (u_id u)) = Some (w_balance w)
               \<and> (\<exists>t. walletTransactions s' = walletTransactions s @ [t]
                     \<and> t_status t = Processing \<and> t_reference t = ''WDL_'' @ e_nonce env
                     \<and> t_balanceBefore t = w_balance w \<and> t_balanceAfter t = w_balance w)
               \<and> timers s' = timers s @
                    [WithdrawalTimer w (wi_amount inp + 1500) (''WDL_'' @ e_nonce env)]
               \<and> map_option w_balance
                    (walletOfUser (fireTimer env' (last (timers s')) s') (u_id u))
                   = Some (w_balance w - (wi_amount inp + 1500))))"
proof (intro conjI impI)
  assume "w_availableBalance w < wi_amount inp + 1500"
  with assms(1-6) show "\<exists>e. withdraw env u inp s = (Inl e, s)
               \<and> (e = InsufficientBalance \<or> e = InsufficientBalanceWithFee 1500)
               \<and> code_of e = BAD_REQUEST"
    by (simp add: withdraw_def Let_def)
next
  assume ok: "wi_amount inp + 1500 \<le> w_availableBalance w"
  let ?total = "wi_amount inp + 1500"
  let ?ref = "''WDL_'' @ e_nonce env"
  let ?h = "\<lparr> h_walletId = w_id w, h_amount = ?total, h_reason = ''withdrawal'',
              h_reference = ?ref, h_expiresAt = e_now env + 24 * 60 * 60 * 1000,
              h_releasedAt = None \<rparr>"
  let ?t = "\<lparr> t_walletId = w_id w, t_reference = ?ref, t_type = Withdrawal,
              t_subType = ''bank_transfer'', t_amount = - ?total, t_fee = 1500,
              t_netAmount = - ?total, t_balanceBefore = w_balance w,
              t_balanceAfter = w_balance w, t_status = Processing, t_createdAt = e_now env,
              t_completedAt = None \<rparr>"
  let ?r = "\<lparr> wr_reference = ?ref, wr_amount = wi_amount inp, wr_fee = 1500,
              wr_totalAmount = ?total, wr_status = Processing,
              wr_newAvailableBalance = w_availableBalance w - ?total \<rparr>"
  let ?s2 = "updateWallet (w_id w) (\<lambda>x. x\<lparr>w_availableBalance := w_availableBalance w - ?total\<rparr>)
               (s\<lparr>walletHolds := walletHolds s @ [?h]\<rparr>)"
  let ?s' = "?s2\<lparr>walletTransactions := walletTransactions ?s2 @ [?t],
                 timers := timers ?s2 @ [WithdrawalTimer w ?total ?ref]\<rparr>"
  from assms(2) have amt: "0 \<le> wi_amount inp" by (simp add: withdrawSchema_def)
  from assms(1-6,8,9) ok amt have run: "withdraw env u inp s = (Inr ?r, ?s')"
    by (simp add: withdraw_def Let_def insertHold_def insertTransaction_def updateWallet_def)
  have d: "distinct (map w_id (wallets (s\<lparr>walletHolds := walletHolds s @ [?h]\<rparr>)))"
    using assms(7) by simp
  have wu: "walletOfUser (s\<lparr>walletHolds := walletHolds s @ [?h]\<rparr>) (u_id u) = Some w"
    using assms(3) by (simp add: walletOfUser_def)
  have w2: "walletOfUser ?s2 (u_id u) = Some (w\<lparr>w_availableBalance := w_availableBalance w - ?total\<rparr>)"
    by (rule walletOfUser_updateWallet [OF d wu]) simp
  then have w': "walletOfUser ?s' (u_id u) = Some (w\<lparr>w_availableBalance := w_availableBalance w - ?total\<rparr>)"
    by (simp add: walletOfUser_def)
  have d': "distinct (map w_id (wallets ?s'))"
    using assms(7) by (simp add: updateWallet_def comp_def if_distrib cong: if_cong)
  have wid: "w_id (w\<lparr>w_availableBalance := w_availableBalance w - ?total\<rparr>) = w_id w" by simp
  have "walletOfUser (updateWallet (w_id (w\<lparr>w_availableBalance := w_availableBalance w - ?total\<rparr>))
            (\<lambda>x. x\<lparr>w_balance := w_balance w - ?total, w_lastTransactionAt := Some (e_now env')\<rparr>) ?s')
          (u_id u)
        = Some ((w\<lparr>w_availableBalance := w_availableBalance w - ?total\<rparr>)
                  \<lparr>w_balance := w_balance w - ?total, w_lastTransactionAt := Some (e_now env')\<rparr>)"
    by (rule walletOfUser_updateWallet [OF d' w']) simp
  then have fired: "map_option w_balance
          (walletOfUser (fireTimer env' (WithdrawalTimer w ?total ?ref) ?s') (u_id u))
        = Some (w_balance w - ?total)"
    by (simp add: Let_def walletOfUser_def updateTransaction_def updateWallet_def)
  have last: "last (timers ?s') = WithdrawalTimer w ?total ?ref" by simp
  have holds: "walletHolds ?s' = walletHolds s @ [?h]" by (simp add: updateWallet_def)
  have txs: "walletTransactions ?s' = walletTransactions s @ [?t]" by (simp add: updateWallet_def)
  have tms: "timers ?s' = timers s @ [WithdrawalTimer w ?total ?ref]" by (simp add: updateWallet_def)
  show "\<exists>r s'. withdraw env u inp s = (Inr r, s')
               \<and> wr_fee r = 1500 \<and> wr_totalAmount r = wi_amount inp + 1500
               \<and> wr_status r = Processing
               \<and> wr_newAvailableBalance r = w_availableBalance w - (wi_amount inp + 1500)
               \<and> walletHolds s' = walletHolds s @
                    [\<lparr> h_walletId = w_id w, h_amount = wi_amount inp + 1500,
                       h_reason = ''withdrawal'', h_reference = ''WDL_'' @ e_nonce env,
                       h_expiresAt = e_now env + 24 * 60 * 60 * 1000, h_releasedAt = None \<rparr>]
               \<and> walletOfUser s' (u_id u) =
                    Some (w\<lparr>w_availableBalance := w_availableBalance w - (wi_amount inp + 1500)\<rparr>)
               \<and> map_option w_balance (walletOfUser s' (u_id u)) = Some (w_balance w)
               \<and> (\<exists>t. walletTransactions s' = walletTransactions s @ [t]
                     \<and> t_status t = Processing \<and> t_reference t = ''WDL_'' @ e_nonce env
                     \<and> t_balanceBefore t = w_balance w \<and> t_balanceAfter t = w_balance w)
               \<and> timers s' = timers s @
                    [WithdrawalTimer w (wi_amount inp + 1500) (''WDL_'' @ e_nonce env)]
               \<and> map_option w_balance
                    (walletOfUser (fireTimer env' (last (timers s')) s') (u_id u))
                   = Some (w_balance w - (wi_amount inp + 1500))"
  proof (intro exI conjI)
    show "withdraw env u inp s = (Inr ?r, ?s')" by (rule run)
    show "walletHolds ?s' = walletHolds s @ [?h]" by (rule holds)
    show "walletOfUser ?s' (u_id u) = Some (w\<lparr>w_availableBalance := w_availableBalance w - ?total\<rparr>)"
      by (rule w')
    show "map_option w_balance (walletOfUser ?s' (u_id u)) = Some (w_balance w)"
      using w' by simp
    show "walletTransactions ?s' = walletTransactions s @ [?t]" by (rule txs)
    show "timers ?s' = timers s @ [WithdrawalTimer w ?total ?ref]" by (rule tms)
    show "map_option w_balance (walletOfUser (fireTimer env' (last (timers ?s')) ?s') (u_id u))
            = Some (w_balance w - ?total)"
      using fired last by simp
  qed simp_all
qed

theorem withdraw_places_hold_witness:
  "3000 < wi_amount withdraw2000 + 1500
   \<and> (\<exists>e. withdraw (envAt 8000 ''8'') bob withdraw2000 ledgerAB = (Inl e, ledgerAB)
          \<and> (e = InsufficientBalance \<or> e = InsufficientBalanceWithFee 1500)
          \<and> code_of e = BAD_REQUEST)
   \<and> wi_amount withdraw1000 + 1500 \<le> 3000
   \<and> (\<exists>r s'. withdraw (envAt 8000 ''8'') bob withdraw1000 ledgerAB = (Inr r, s')
          \<and> wr_fee r = 1500 \<and> wr_totalAmount r = 2500 \<and> wr_status r = Processing
          \<and> wr_newAvailableBalance r = 500
          \<and> walletHolds s' = walletHolds ledgerAB @
               [\<lparr> h_walletId = 2, h_amount = 2500, h_reason = ''withdrawal'',
                  h_reference = ''WDL_8'', h_expiresAt = 86408000, h_releasedAt = None \<rparr>]
          \<and> map_option w_availableBalance (walletOfUser s' (u_id bob)) = Some 500
          \<and> map_option w_balance (walletOfUser s' (u_id bob)) = Some 3000
          \<and> map_option w_balance
               (walletOfUser (fireTimer (envAt 9000 ''9'') (last (timers s')) s') (u_id bob))
              = Some 500)"
proof -
  let ?env = "envAt 8000 ''8''"
  let ?w = "\<lparr> w_id = 2, w_userId = 2, w_balance = 3000, w_availableBalance = 3000,
              w_walletPinHash = ''#4321'', w_dailyLimit = 500000,
              w_monthlyLimit = 2000000, w_lastTransactionAt = Some 4000 \<rparr>"
  let ?b = "\<lparr> bk_id = 1, bk_userId = 2, bk_isVerified = True \<rparr>"
  have rl: "e_rateLimitOk ?env" by (simp add: envAt_def env0_def)
  have s2: "withdrawSchema withdraw2000" and s1: "withdrawSchema withdraw1000" by code_simp+
  have p2: "e_bcrypt_compare ?env (wi_pin withdraw2000) (w_walletPinHash ?w)"
    and p1: "e_bcrypt_compare ?env (wi_pin withdraw1000) (w_walletPinHash ?w)"
    by (simp_all add: envAt_def env0_def withdraw2000_def withdraw1000_def)
  have b2: "find (\<lambda>b. int (bk_id b) = wi_bankId withdraw2000 \<and> bk_userId b = u_id bob)
              (walletBanks ledgerAB) = Some ?b"
    and b1: "find (\<lambda>b. int (bk_id b) = wi_bankId withdraw1000 \<and> bk_userId b = u_id bob)
              (walletBanks ledgerAB) = Some ?b"
    by code_simp+
  have v: "bk_isVerified ?b" by simp
  have fh: "''WDL_'' @ e_nonce ?env \<notin> set (map h_reference (walletHolds ledgerAB))"
    and ft: "''WDL_'' @ e_nonce ?env \<notin> set (map t_reference (walletTransactions ledgerAB))"
    by code_simp+
  have a2: "wi_amount withdraw2000 = 2000" and a1: "wi_amount withdraw1000 = 1000"
    by (simp_all add: withdraw2000_def withdraw1000_def)
  have n: "e_nonce ?env = ''8''" "e_now ?env = 8000" by (simp_all add: envAt_def)
  note low = withdraw_places_hold [OF rl s2 ledgerAB_bob p2 b2 v ledgerAB_distinct fh ft]
  note ok = withdraw_places_hold [OF rl s1 ledgerAB_bob p1 b1 v ledgerAB_distinct fh ft,
      where env' = "envAt 9000 ''9''"]
  from low have 1: "\<exists>e. withdraw ?env bob withdraw2000 ledgerAB = (Inl e, ledgerAB)
          \<and> (e = InsufficientBalance \<or> e = InsufficientBalanceWithFee 1500)
          \<and> code_of e = BAD_REQUEST"
    by (simp add: a2)
  from ok have "\<exists>r s'. withdraw ?env bob withdraw1000 ledgerAB = (Inr r, s')
          \<and> wr_fee r = 1500 \<and> wr_totalAmount r = 2500 \<and> wr_status r = Processing
          \<and> wr_newAvailableBalance r = 500
          \<and> walletHolds s' = walletHolds ledgerAB @
               [\<lparr> h_walletId = 2, h_amount = 2500, h_reason = ''withdrawal'',
                  h_reference = ''WDL_8'', h_expiresAt = 86408000, h_releasedAt = None \<rparr>]
          \<and> walletOfUser s' (u_id bob) = Some (?w\<lparr>w_availableBalance := 500\<rparr>)
          \<and> map_option w_balance (walletOfUser s' (u_id bob)) = Some 3000
          \<and> map_option w_balance
               (walletOfUser (fireTimer (envAt 9000 ''9'') (last (timers s')) s') (u_id bob))
              = Some 500"
    by (simp add: a1 n) blast
  then have 2: "\<exists>r s'. withdraw ?env bob withdraw1000 ledgerAB = (Inr r, s')
          \<and> wr_fee r = 1500 \<and> wr_totalAmount r = 2500 \<and> wr_status r = Processing
          \<and> wr_newAvailableBalance r = 500
          \<and> walletHolds s' = walletHolds ledgerAB @
               [\<lparr> h_walletId = 2, h_amount = 2500, h_reason = ''withdrawal'',
                  h_reference = ''WDL_8'', h_expiresAt = 86408000, h_releasedAt = None \<rparr>]
          \<and> map_option w_availableBalance (walletOfUser s' (u_id bob)) = Some 500
          \<and> map_option w_balance (walletOfUser s' (u_id bob)) = Some 3000
          \<and> map_option w_balance
               (walletOfUser (fireTimer (envAt 9000 ''9'') (last (timers s')) s') (u_id bob))
              = Some 500"
    by force
  from 1 2 a1 a2 show ?thesis by simp
qed

section \<open>Where the code departs from the specification\<close>

text \<open>What the limit check of the transfer does with its own totals: a request that passes
  the earlier checks is rejected, with the store untouched, when the total of the day or
  of the month plus the amount exceeds the cap.\<close>

lemma transfer_limit_rejects:
  assumes "e_rateLimitOk env" and "transferSchema inp"
    and "walletOfUser s (u_id u) = Some sw"
    and "e_bcrypt_compare env (ti_pin inp) (w_walletPinHash sw)"
    and "ti_amount inp \<le> w_availableBalance sw"
  shows "w_dailyLimit sw < transferTotalSince s (w_id sw) (e_startOfDay env) + ti_amount inp
           \<Longrightarrow> transfer env u inp s = (Inl DailyTransferLimitExceeded, s)"
    and "transferTotalSince s (w_id sw) (e_startOfDay env) + ti_amount inp \<le> w_dailyLimit sw
           \<Longrightarrow> w_monthlyLimit sw < transferTotalSince s (w_id sw) (e_startOfMonth env) + ti_amount inp
           \<Longrightarrow> transfer env u inp s = (Inl MonthlyTransferLimitExceeded, s)"
  using assms by (simp_all add: transfer_def Let_def)

text \<open>
  Claim C1. After a funding has been verified and credited, a second call of the verify
  operation with the same reference should return the stored result and leave the wallet
  as it is. The code does not read the status of the transaction: with the gateway
  confirming again, the second call credits the net amount a second time. Alice's funding
  of 1000 is completed with 985 credited; the second call returns the new balance 1970.
\<close>

theorem verifyFunding_twice_credits_twice:
  "map t_status (walletTransactions fundedOnce) = [Completed]
   \<and> map t_netAmount (walletTransactions fundedOnce) = [985]
   \<and> map w_balance (wallets fundedOnce) = [985, 0]
   \<and> map w_availableBalance (wallets fundedOnce) = [985, 0]
   \<and> fst verifiedTwice = Inr \<lparr> vr_success = True, vr_amount = 1000, vr_newBalance = 1970 \<rparr>
   \<and> map w_balance (wallets (snd verifiedTwice)) = [1970, 0]
   \<and> map w_availableBalance (wallets (snd verifiedTwice)) = [1970, 0]"
  by code_simp

text \<open>
  Claim C2. Balances should never be negative. Each payer is guarded by a check of the
  available balance, but the settlement of a withdrawal writes the balance computed from
  the wallet row the request read three seconds earlier. Starting from freshly
  initialised wallets, Bob funds 3046 (3000 credited), starts a top-up of 1000, asks to
  withdraw 1000 (hold 2500, available 500) and completes the top-up (balance 3985,
  available 1485); the settlement then sets the balance to 3000 - 2500 = 500 and leaves
  1485 available; a bill payment of 1000 with its fee of 200 passes the check against the
  available balance and takes the balance to -700.
\<close>

theorem stale_settlement_makes_balance_negative:
  "map w_balance (wallets freshWallets) = [0, 0]
   \<and> map w_balance (wallets ledgerAB) = [10000, 3000]
   \<and> map w_availableBalance (wallets ledgerAB) = [10000, 3000]
   \<and> map w_balance (wallets bobWithdrawing) = [10000, 3000]
   \<and> map w_availableBalance (wallets bobWithdrawing) = [10000, 500]
   \<and> map w_balance (wallets bobToppedUp) = [10000, 3985]
   \<and> map w_availableBalance (wallets bobToppedUp) = [10000, 1485]
   \<and> map w_balance (wallets bobSettled) = [10000, 500]
   \<and> map w_availableBalance (wallets bobSettled) = [10000, 1485]
   \<and> fst bobPaidAirtime = Inr \<lparr> br_reference = ''BILL_12'', br_amount = 1000, br_fee = 200,
                               br_totalAmount = 1200, br_status = Processing,
                               br_newBalance = - 700 \<rparr>
   \<and> map w_balance (wallets (snd bobPaidAirtime)) = [10000, - 700]
   \<and> map w_availableBalance (wallets (snd bobPaidAirtime)) = [10000, 285]"
  by code_simp

text \<open>
  Claim C4. The spent total of a window should be the sum of the completed debits of the
  kinds transfer, payment and withdrawal, and a request with spent + amount above the cap
  should be rejected with the limit error. The transfer's query sums the amount column
  over rows of type transfer only, where the balance query of the same router counts
  transfer, payment and withdrawal. Alice has paid 400000 to a merchant today and her
  daily cap is 500000; the spent total in the specification's words is 400000, the code's
  total is 0, and her request to send 200000 passes the limit check: the error it ends in
  is that of the recipient query, not the limit error.
\<close>

theorem transfer_limit_ignores_payments:
  "fst paid400000 = Inr \<lparr> mr_reference = ''MERCH_3'', mr_amount = 400000, mr_fee = 10000,
                           mr_merchantAmount = 390000, mr_newBalance = 585000 \<rparr>
   \<and> map w_dailyLimit (wallets (snd paid400000)) = [500000, 500000]
   \<and> spec_spentSince (snd paid400000) 1 (e_startOfDay (envAt 4000 ''4'')) = 400000
   \<and> transferTotalSince (snd paid400000) 1 (e_startOfDay (envAt 4000 ''4'')) = 0
   \<and> w_dailyLimit (hd (wallets (snd paid400000)))
        < spec_spentSince (snd paid400000) 1 (e_startOfDay (envAt 4000 ''4''))
          + ti_amount send200000
   \<and> transferTotalSince (snd paid400000) 1 (e_startOfDay (envAt 4000 ''4''))
          + ti_amount send200000 \<le> w_dailyLimit (hd (wallets (snd paid400000)))
   \<and> sent200000 = (Inl InternalError, snd paid400000)
   \<and> fst sent200000 \<noteq> Inl DailyTransferLimitExceeded"
  by code_simp


text \<open>
  Claim C9. A transfer of 5000 from a wallet with balance 10000 and available balance
  10000 should charge the fee \<open>max(100, round(5000 * 0.005)) = 100\<close>, leave the sender with
  5000, raise the recipient's balance by 4900 and record a fee row of 100. The fee the
  code computes is 100, as the policy says, but the request ends in an internal error
  for the reasons given under C8: both balances stay as they were and no row of type
  transfer or fee is recorded.
\<close>

theorem transfer_scenario_is_not_applied:
  "spec_transfer_fee (ti_amount send5000) = 100
   \<and> max 100 (round_half_percent (ti_amount send5000)) = 100
   \<and> map w_balance (wallets ledgerAB) = [10000, 3000]
   \<and> map w_availableBalance (wallets ledgerAB) = [10000, 3000]
   \<and> fst sent5000 = Inl InternalError
   \<and> map w_balance (wallets (snd sent5000)) = [10000, 3000]
   \<and> map w_availableBalance (wallets (snd sent5000)) = [10000, 3000]
   \<and> walletRecipients (snd sent5000) = []"
proof -
  have fee: "spec_transfer_fee (ti_amount send5000) = 100"
    by (simp add: spec_transfer_fee_code send5000_def round_half_percent_def)
  have rest: "max 100 (round_half_percent (ti_amount send5000)) = 100
   \<and> map w_balance (wallets ledgerAB) = [10000, 3000]
   \<and> map w_availableBalance (wallets ledgerAB) = [10000, 3000]
   \<and> fst sent5000 = Inl InternalError
   \<and> map w_balance (wallets (snd sent5000)) = [10000, 3000]
   \<and> map w_availableBalance (wallets (snd sent5000)) = [10000, 3000]
   \<and> walletRecipients (snd sent5000) = []"
    by code_simp
  from fee rest show ?thesis by simp
qed

end
